theory Spec2Isabelle
  imports Complex_Main "HOL-Library.Log_Nat"
begin

text \<open>
  A model of the betting automation: the retry executor, the odds conversion, the reading
  of payouts from displayed text, the wager check and the parlay construction of
  \<^verbatim>\<open>fliff_automator.py\<close>, the workflow control of \<^verbatim>\<open>github_api_manager.py\<close>, the
  construction of the components from the environment and the driver \<^verbatim>\<open>run\<close> of
  \<^verbatim>\<open>main.py\<close>. The browser, the HTTP service and the messaging library are not part of
  the program: what they answer is a parameter of each modelled operation. A function
  keeps its name in the source, without the leading underscore of a private method; the
  closure that a public operation hands to the retry executor is defined first, under the
  closure's name, and the public operation is its retry.
\<close>

section \<open>Exceptions\<close>

text \<open>
  The Python exceptions that the modelled code raises or receives from its libraries.
  Each carries the message the source gives it. All of them are instances of
  \<^verbatim>\<open>Exception\<close>, so every \<^verbatim>\<open>except Exception\<close> handler of the source catches
  each of them; process-level signals (\<^verbatim>\<open>KeyboardInterrupt\<close>, \<^verbatim>\<open>SystemExit\<close>) are not
  failures of a unit of work and are outside the model.
\<close>

datatype py_exception =
    Exception string
  | ValueError string
  | TypeError string
  | AttributeError string
  | KeyError string
  | ZeroDivisionError
  | PlaywrightError string
  | RequestException string
  | HTTPError nat
  | TelegramError string

section \<open>The retry executor\<close>

text \<open>
  \<^verbatim>\<open>
  def _retry_operation(self, operation, max_retries=3, delay=2, operation_name="operation"):
      for attempt in range(max_retries):
          try:
              return operation()
          except Exception as e:
              if attempt == max_retries - 1:
                  raise
              wait_time = delay * (2 ** attempt)
              logger.warning(...)
              time.sleep(wait_time)
  \<close>
  The wrapped operation is a closure over mutable state; what the executor observes of it
  is the outcome of its first, second, ... invocation, so an operation is a function from
  the number of earlier invocations to an outcome. The run of the executor is recorded in
  a state: the number of invocations made and the waits passed to \<^verbatim>\<open>time.sleep\<close>.
  A \<^verbatim>\<open>for\<close> loop that ends without \<^verbatim>\<open>return\<close> makes the function return \<^verbatim>\<open>None\<close>,
  which is \<open>Inr None\<close>; \<^verbatim>\<open>time.sleep\<close> raises \<^verbatim>\<open>ValueError\<close> on a negative wait.
\<close>

type_synonym 'a operation = "nat \<Rightarrow> py_exception + 'a"

record 'a retry_run =
  outcome :: "py_exception + 'a option"
  calls :: nat
  sleeps :: "int list"

definition range_py :: "int \<Rightarrow> nat list" where
  "range_py n = [0..<nat n]"

fun retry_for :: "'a operation \<Rightarrow> int \<Rightarrow> int \<Rightarrow> nat list \<Rightarrow> nat \<Rightarrow> int list \<Rightarrow> 'a retry_run" where
  "retry_for operation max_retries delay [] n ws =
     \<lparr>outcome = Inr None, calls = n, sleeps = ws\<rparr>"
| "retry_for operation max_retries delay (attempt # rest) n ws =
     (case operation n of
        Inr v \<Rightarrow> \<lparr>outcome = Inr (Some v), calls = Suc n, sleeps = ws\<rparr>
      | Inl e \<Rightarrow>
          if int attempt = max_retries - 1
          then \<lparr>outcome = Inl e, calls = Suc n, sleeps = ws\<rparr>
          else (let wait_time = delay * 2 ^ attempt in
                if wait_time < 0
                then \<lparr>outcome = Inl (ValueError ''sleep length must be non-negative''),
                      calls = Suc n, sleeps = ws\<rparr>
                else retry_for operation max_retries delay rest (Suc n) (ws @ [wait_time])))"

definition retry_operation :: "'a operation \<Rightarrow> int \<Rightarrow> int \<Rightarrow> 'a retry_run" where
  "retry_operation operation max_retries delay =
     retry_for operation max_retries delay (range_py max_retries) 0 []"

text \<open>The defaults of the source: \<^verbatim>\<open>max_retries=3, delay=2\<close>.\<close>

definition retry_default :: "'a operation \<Rightarrow> 'a retry_run" where
  "retry_default operation = retry_operation operation 3 2"

section \<open>Numbers and text\<close>

text \<open>
  A finite value of Python's \<^verbatim>\<open>float\<close> is a rational number, and the three special
  values are kept apart because \<^verbatim>\<open>float()\<close> produces them from text (\<^verbatim>\<open>"inf"\<close>,
  \<^verbatim>\<open>"nan"\<close>). The functions of this section compute without rounding; the rounding of
  binary64 is added in its own section below, for the properties that depend on it. The
  sign of zero is not modelled. Comparisons with \<^verbatim>\<open>nan\<close> are false, and a division by
  zero raises \<^verbatim>\<open>ZeroDivisionError\<close>.
\<close>

datatype pyfloat = Fin rat | PInf | NInf | NaN

fun py_add :: "pyfloat \<Rightarrow> pyfloat \<Rightarrow> pyfloat" where
  "py_add (Fin a) (Fin b) = Fin (a + b)"
| "py_add NaN y = NaN"
| "py_add x NaN = NaN"
| "py_add PInf NInf = NaN"
| "py_add NInf PInf = NaN"
| "py_add PInf y = PInf"
| "py_add NInf y = NInf"
| "py_add (Fin a) y = y"

fun py_truediv :: "pyfloat \<Rightarrow> pyfloat \<Rightarrow> py_exception + pyfloat" where
  "py_truediv x (Fin b) =
     (if b = 0 then Inl ZeroDivisionError
      else Inr (case x of
                  Fin a \<Rightarrow> Fin (a / b)
                | PInf \<Rightarrow> (if 0 < b then PInf else NInf)
                | NInf \<Rightarrow> (if 0 < b then NInf else PInf)
                | NaN \<Rightarrow> NaN))"
| "py_truediv x NaN = Inr NaN"
| "py_truediv (Fin a) y = Inr (Fin 0)"
| "py_truediv x y = Inr NaN"

fun py_le :: "pyfloat \<Rightarrow> pyfloat \<Rightarrow> bool" where
  "py_le (Fin a) (Fin b) = (a \<le> b)"
| "py_le NaN y = False"
| "py_le x NaN = False"
| "py_le NInf y = True"
| "py_le x PInf = True"
| "py_le x y = False"

fun py_lt :: "pyfloat \<Rightarrow> pyfloat \<Rightarrow> bool" where
  "py_lt (Fin a) (Fin b) = (a < b)"
| "py_lt NaN y = False"
| "py_lt x NaN = False"
| "py_lt PInf y = False"
| "py_lt x NInf = False"
| "py_lt x y = True"

definition py_ge :: "pyfloat \<Rightarrow> pyfloat \<Rightarrow> bool" where
  "py_ge x y = py_le y x"

definition py_gt :: "pyfloat \<Rightarrow> pyfloat \<Rightarrow> bool" where
  "py_gt x y = py_lt y x"

text \<open>
  Text is a list of 8-bit characters, read as the code points below 256. \<open>isspace\<close> is
  what \<^verbatim>\<open>str.strip()\<close> removes there; \<^verbatim>\<open>float()\<close> removes the same characters except
  the four ASCII separators 28 to 31. Among these code points the decimal digits
  (\<^verbatim>\<open>\d\<close> of a regular expression, the digits of \<^verbatim>\<open>float()\<close>) are \<^verbatim>\<open>0\<close> to \<^verbatim>\<open>9\<close>.
\<close>

definition isspace :: "char \<Rightarrow> bool" where
  "isspace c \<longleftrightarrow> (of_char c :: nat) \<in> {9, 10, 11, 12, 13, 28, 29, 30, 31, 32, 133, 160}"

definition float_space :: "char \<Rightarrow> bool" where
  "float_space c \<longleftrightarrow> (of_char c :: nat) \<in> {9, 10, 11, 12, 13, 32, 133, 160}"

definition strip :: "string \<Rightarrow> string" where
  "strip s = rev (dropWhile isspace (rev (dropWhile isspace s)))"

definition float_strip :: "string \<Rightarrow> string" where
  "float_strip s = rev (dropWhile float_space (rev (dropWhile float_space s)))"

definition is_digit :: "char \<Rightarrow> bool" where
  "is_digit c \<longleftrightarrow> 48 \<le> (of_char c :: nat) \<and> (of_char c :: nat) \<le> 57"

definition digit_val :: "char \<Rightarrow> int" where
  "digit_val c = of_char c - 48"

definition int_of_digits :: "string \<Rightarrow> int" where
  "int_of_digits ds = foldl (\<lambda>a c. 10 * a + digit_val c) 0 ds"

text \<open>
  \<^verbatim>\<open>str.lower()\<close> on the ASCII letters. The source lowers a text only to search it for the
  ASCII word \<^verbatim>\<open>payout\<close> and \<^verbatim>\<open>float()\<close> only to recognise \<^verbatim>\<open>inf\<close> and \<^verbatim>\<open>nan\<close>; no other
  letter below 256 lowers to an ASCII letter.
\<close>

definition ascii_lower :: "char \<Rightarrow> char" where
  "ascii_lower c = (if 65 \<le> (of_char c :: nat) \<and> (of_char c :: nat) \<le> 90
                    then char_of (of_char c + 32 :: nat) else c)"

definition lower :: "string \<Rightarrow> string" where
  "lower s = map ascii_lower s"

definition startswith :: "string \<Rightarrow> string \<Rightarrow> bool" where
  "startswith s p = (take (length p) s = p)"

text \<open>\<^verbatim>\<open>sub in s\<close> for strings.\<close>

fun contains :: "string \<Rightarrow> string \<Rightarrow> bool" where
  "contains [] sub = (sub = [])"
| "contains (c # cs) sub = (startswith (c # cs) sub \<or> contains cs sub)"

subsection \<open>The builtin \<^verbatim>\<open>float()\<close> on text\<close>

text \<open>
  \<^verbatim>\<open>float(text)\<close> strips white space, accepts an underscore only between two digits,
  then reads an optional sign followed by \<^verbatim>\<open>inf\<close>, \<^verbatim>\<open>infinity\<close> or \<^verbatim>\<open>nan\<close> in any case, or
  by a decimal numeral: digits with an optional point (at least one digit in all) and an
  optional exponent. Anything else raises \<^verbatim>\<open>ValueError\<close>.
\<close>

fun underscores_ok :: "char option \<Rightarrow> string \<Rightarrow> bool" where
  "underscores_ok prev [] = (prev \<noteq> Some CHR ''_'')"
| "underscores_ok prev (c # cs) =
     (if c = CHR ''_''
      then (case prev of Some d \<Rightarrow> is_digit d | None \<Rightarrow> False) \<and> underscores_ok (Some c) cs
      else (prev = Some CHR ''_'' \<longrightarrow> is_digit c) \<and> underscores_ok (Some c) cs)"

definition parse_sign :: "string \<Rightarrow> bool \<times> string" where
  "parse_sign s =
     (case s of
        [] \<Rightarrow> (False, [])
      | c # cs \<Rightarrow> if c = CHR ''-'' then (True, cs)
                  else if c = CHR ''+'' then (False, cs) else (False, s))"

definition parse_exponent :: "string \<Rightarrow> int option" where
  "parse_exponent s =
     (case s of
        [] \<Rightarrow> Some 0
      | c # cs \<Rightarrow>
          if c = CHR ''e'' \<or> c = CHR ''E''
          then (let (neg, ds) = parse_sign cs in
                if ds \<noteq> [] \<and> list_all is_digit ds
                then Some (if neg then - int_of_digits ds else int_of_digits ds)
                else None)
          else None)"

definition parse_decimal :: "string \<Rightarrow> rat option" where
  "parse_decimal s =
     (let ip = takeWhile is_digit s;
          r1 = dropWhile is_digit s;
          fp = (case r1 of [] \<Rightarrow> []
                | c # cs \<Rightarrow> if c = CHR ''.'' then takeWhile is_digit cs else []);
          r2 = (case r1 of [] \<Rightarrow> []
                | c # cs \<Rightarrow> if c = CHR ''.'' then dropWhile is_digit cs else r1)
      in if ip = [] \<and> fp = [] then None
         else (case parse_exponent r2 of
                 None \<Rightarrow> None
               | Some ex \<Rightarrow>
                   Some (of_int (int_of_digits (ip @ fp)) / 10 ^ length fp
                         * (if 0 \<le> ex then 10 ^ nat ex else 1 / 10 ^ nat (- ex)))))"

definition float_error :: py_exception where
  "float_error = ValueError ''could not convert string to float''"

definition py_float :: "string \<Rightarrow> py_exception + pyfloat" where
  "py_float text =
     (let s = float_strip text in
      if \<not> underscores_ok None s then Inl float_error
      else (let (neg, body) = parse_sign (filter (\<lambda>c. c \<noteq> CHR ''_'') s);
                word = lower body
            in if word = ''inf'' \<or> word = ''infinity'' then Inr (if neg then NInf else PInf)
               else if word = ''nan'' then Inr NaN
               else (case parse_decimal body of
                       None \<Rightarrow> Inl float_error
                     | Some m \<Rightarrow> Inr (Fin (if neg then - m else m)))))"

text \<open>Sequencing of two steps that may raise: the first exception ends the computation.\<close>

definition then_exc :: "py_exception + 'a \<Rightarrow> ('a \<Rightarrow> py_exception + 'b) \<Rightarrow> py_exception + 'b" where
  "then_exc r f = (case r of Inl e \<Rightarrow> Inl e | Inr v \<Rightarrow> f v)"

section \<open>Odds conversion\<close>

text \<open>
  \<^verbatim>\<open>
  def _convert_odds_to_decimal(self, odds_text: str) -> float:
      odds_text = odds_text.strip()
      if odds_text.startswith('+'):
          return (float(odds_text[1:]) + 100) / 100
      elif odds_text.startswith('-'):
          return (100 + float(odds_text[1:])) / float(odds_text[1:])
      else:
          return float(odds_text)
  \<close>
\<close>

definition convert_odds_to_decimal :: "string \<Rightarrow> py_exception + pyfloat" where
  "convert_odds_to_decimal odds_text0 =
     (let odds_text = strip odds_text0 in
      if startswith odds_text ''+''
      then then_exc (py_float (drop 1 odds_text))
             (\<lambda>x. py_truediv (py_add x (Fin 100)) (Fin 100))
      else if startswith odds_text ''-''
      then then_exc (py_float (drop 1 odds_text))
             (\<lambda>x. then_exc (py_float (drop 1 odds_text))
                (\<lambda>y. py_truediv (py_add (Fin 100) x) y))
      else py_float odds_text)"

section \<open>Binary64 arithmetic\<close>

text \<open>
  The functions above give the exact value of each result. The machine keeps a finite
  \<^verbatim>\<open>float\<close> in the binary64 format: the result of \<^verbatim>\<open>float()\<close> on text, of an addition and
  of a division is the exact result rounded to the nearest number with 53 significant
  bits, to the even one of two nearest, with an exponent of at least -1022 for the
  leading bit (below, the spacing stays that of the smallest exponent) and infinity from
  \<open>2 ^ 1024\<close> on. \<open>expo q\<close> is the exponent of the leading bit of a positive \<open>q\<close>.
  \<open>convert_odds_to_decimal64\<close> is \<^verbatim>\<open>_convert_odds_to_decimal\<close> with every result rounded
  so; it is used where a property depends on the rounding.
\<close>

definition expo :: "rat \<Rightarrow> int" where
  "expo q =
     (let (a, b) = quotient_of q; k = bitlen a - bitlen b
      in if 2 powi k \<le> q then k else k - 1)"

definition round_half_even :: "rat \<Rightarrow> int" where
  "round_half_even m =
     (let f = \<lfloor>m\<rfloor>; d = m - of_int f
      in if d < 1 / 2 then f
         else if 1 / 2 < d then f + 1
         else if even f then f else f + 1)"

definition round_positive :: "rat \<Rightarrow> pyfloat" where
  "round_positive q =
     (let e = max (expo q) (- 1022);
          ulp = 2 powi (e - 52);
          r = of_int (round_half_even (q / ulp)) * ulp
      in if 1024 \<le> expo r then PInf else Fin r)"

definition negate :: "pyfloat \<Rightarrow> pyfloat" where
  "negate x = (case x of Fin r \<Rightarrow> Fin (- r) | PInf \<Rightarrow> NInf | NInf \<Rightarrow> PInf | NaN \<Rightarrow> NaN)"

definition round64 :: "rat \<Rightarrow> pyfloat" where
  "round64 q =
     (if q = 0 then Fin 0
      else if 0 < q then round_positive q
      else negate (round_positive (- q)))"

definition to64 :: "pyfloat \<Rightarrow> pyfloat" where
  "to64 x = (case x of Fin q \<Rightarrow> round64 q | _ \<Rightarrow> x)"

definition py_float64 :: "string \<Rightarrow> py_exception + pyfloat" where
  "py_float64 text = then_exc (py_float text) (\<lambda>x. Inr (to64 x))"

definition py_add64 :: "pyfloat \<Rightarrow> pyfloat \<Rightarrow> pyfloat" where
  "py_add64 x y = to64 (py_add x y)"

definition py_truediv64 :: "pyfloat \<Rightarrow> pyfloat \<Rightarrow> py_exception + pyfloat" where
  "py_truediv64 x y = then_exc (py_truediv x y) (\<lambda>z. Inr (to64 z))"

definition convert_odds_to_decimal64 :: "string \<Rightarrow> py_exception + pyfloat" where
  "convert_odds_to_decimal64 odds_text0 =
     (let odds_text = strip odds_text0 in
      if startswith odds_text ''+''
      then then_exc (py_float64 (drop 1 odds_text))
             (\<lambda>x. py_truediv64 (py_add64 x (Fin 100)) (Fin 100))
      else if startswith odds_text ''-''
      then then_exc (py_float64 (drop 1 odds_text))
             (\<lambda>x. then_exc (py_float64 (drop 1 odds_text))
                (\<lambda>y. py_truediv64 (py_add64 (Fin 100) x) y))
      else py_float64 odds_text)"

section \<open>Reading payouts from displayed text\<close>

text \<open>
  \<^verbatim>\<open>re.search(r'[\d,]+', text)\<close>: the leftmost match starts at the first digit or comma
  and, the repetition being greedy, takes all digits and commas that follow.
  \<^verbatim>\<open>re.search(r'[\d,]+\.?\d*', text)\<close> starts at the same place and continues with a
  point, if one follows, and the digits after it.
\<close>

definition digit_or_comma :: "char \<Rightarrow> bool" where
  "digit_or_comma c \<longleftrightarrow> is_digit c \<or> c = CHR '',''"

definition search_digits_commas :: "string \<Rightarrow> string option" where
  "search_digits_commas text =
     (let r = dropWhile (\<lambda>c. \<not> digit_or_comma c) text
      in if r = [] then None else Some (takeWhile digit_or_comma r))"

definition search_amount :: "string \<Rightarrow> string option" where
  "search_amount text =
     (let r = dropWhile (\<lambda>c. \<not> digit_or_comma c) text
      in if r = [] then None
         else (let whole = takeWhile digit_or_comma r
               in case dropWhile digit_or_comma r of
                    [] \<Rightarrow> Some whole
                  | c # cs \<Rightarrow> if c = CHR ''.''
                              then Some (whole @ CHR ''.'' # takeWhile is_digit cs)
                              else Some whole))"

definition remove_commas :: "string \<Rightarrow> string" where
  "remove_commas s = filter (\<lambda>c. c \<noteq> CHR '','') s"

section \<open>Open wagers\<close>

text \<open>
  \<^verbatim>\<open>
  def _check_wagers():
      self.page.click('a[href="/activity"]')
      self.page.wait_for_load_state('networkidle')
      bet_slips = self.page.query_selector_all('.bet-slip')
      if not bet_slips:
          return False
      for slip in bet_slips:
          payout_text = slip.text_content()
          if 'payout' in payout_text.lower():
              payout_match = re.search(r'[\d,]+', payout_text)
              if payout_match:
                  payout = float(payout_match.group().replace(',', ''))
                  if payout > 1.80:
                      return True
      return False
  return self._retry_operation(_check_wagers, operation_name="check_open_wagers")
  \<close>
  The activity page is what the browser answers: either one of the three page calls
  raises, or the bet slips are enumerated, each with its text. \<open>slip_payout\<close> is the body
  of the loop up to the comparison: the payout read from one slip, \<open>None\<close> when the slip
  is skipped.
\<close>

type_synonym activity_page = "py_exception + string list"

definition slip_payout :: "string \<Rightarrow> py_exception + pyfloat option" where
  "slip_payout payout_text =
     (if contains (lower payout_text) ''payout''
      then (case search_digits_commas payout_text of
              None \<Rightarrow> Inr None
            | Some payout_match \<Rightarrow>
                then_exc (py_float (remove_commas payout_match)) (\<lambda>payout. Inr (Some payout)))
      else Inr None)"

fun slips_loop :: "string list \<Rightarrow> py_exception + bool" where
  "slips_loop [] = Inr False"
| "slips_loop (slip # rest) =
     (case slip_payout slip of
        Inl e \<Rightarrow> Inl e
      | Inr None \<Rightarrow> slips_loop rest
      | Inr (Some payout) \<Rightarrow> if py_gt payout (Fin (9 / 5)) then Inr True else slips_loop rest)"

definition check_wagers :: "activity_page \<Rightarrow> py_exception + bool" where
  "check_wagers page =
     (case page of
        Inl e \<Rightarrow> Inl e
      | Inr bet_slips \<Rightarrow> if bet_slips = [] then Inr False else slips_loop bet_slips)"

text \<open>The public operation: the page may answer differently at each attempt.\<close>

definition check_open_wagers :: "(nat \<Rightarrow> activity_page) \<Rightarrow> bool retry_run" where
  "check_open_wagers pages = retry_default (\<lambda>attempt. check_wagers (pages attempt))"

text \<open>A slip is blocking when the loop's comparison succeeds on it.\<close>

definition blocking :: "string \<Rightarrow> bool" where
  "blocking slip =
     (case slip_payout slip of Inr (Some payout) \<Rightarrow> py_gt payout (Fin (9 / 5)) | _ \<Rightarrow> False)"

section \<open>The betting strategy\<close>

text \<open>
  \<^verbatim>\<open>
  def _get_current_payout(self) -> float:
      bet_slip = self.page.wait_for_selector(self.selectors['bet_slip_container'])
      if not bet_slip:
          return 0.0
      payout_text = bet_slip.text_content()
      payout_match = re.search(r'[\d,]+\.?\d*', payout_text)
      if payout_match:
          payout_str = payout_match.group().replace(',', '')
          return float(payout_str)
      return 0.0
  \<close>
  The argument is the answer of \<^verbatim>\<open>wait_for_selector\<close>: an exception, no element, or the
  text of the bet slip.
\<close>

definition get_current_payout :: "py_exception + string option \<Rightarrow> py_exception + pyfloat" where
  "get_current_payout bet_slip =
     (case bet_slip of
        Inl e \<Rightarrow> Inl e
      | Inr None \<Rightarrow> Inr (Fin 0)
      | Inr (Some payout_text) \<Rightarrow>
          (case search_amount payout_text of
             None \<Rightarrow> Inr (Fin 0)
           | Some payout_match \<Rightarrow> py_float (remove_commas payout_match)))"

text \<open>
  A proposal cell of a game card: the text of its \<^verbatim>\<open>.card-cell-label\<close> (\<open>None\<close> when
  \<^verbatim>\<open>query_selector\<close> finds no label, so that \<^verbatim>\<open>.text_content()\<close> raises
  \<^verbatim>\<open>AttributeError\<close>) and what a click on the cell raises, if anything. A game card
  answers \<^verbatim>\<open>query_selector_all\<close> with its unlocked proposals or with an exception.
  An entry of \<^verbatim>\<open>safe_games\<close> keeps the cell and its decimal odds.
\<close>

record proposal =
  label :: "string option"
  click :: "py_exception option"

type_synonym game = "py_exception + proposal list"

record safe_game =
  element :: proposal
  odds :: pyfloat

text \<open>
  \<^verbatim>\<open>
  safe_games = []
  for game in games:
      try:
          proposals = game.query_selector_all('div.card-home-proposal:not(:has(img[alt="lock"]))')
          for proposal in proposals:
              odds_text = proposal.query_selector('.card-cell-label').text_content().strip()
              odds_decimal = self._convert_odds_to_decimal(odds_text)
              if -250 <= odds_decimal <= 200:
                  safe_games.append({'element': proposal, 'odds': odds_decimal, 'game': game})
      except Exception as e:
          logger.warning(f"Error processing game: {e}")
          continue
  \<close>
  An exception inside a game ends the work on that game; what was appended before stays.
\<close>

definition safe_odds :: "pyfloat \<Rightarrow> bool" where
  "safe_odds odds_decimal \<longleftrightarrow> py_le (Fin (- 250)) odds_decimal \<and> py_le odds_decimal (Fin 200)"

fun proposals_loop :: "proposal list \<Rightarrow> safe_game list \<Rightarrow> safe_game list" where
  "proposals_loop [] safe_games = safe_games"
| "proposals_loop (p # ps) safe_games =
     (case label p of
        None \<Rightarrow> safe_games
      | Some text \<Rightarrow>
          (case convert_odds_to_decimal (strip text) of
             Inl e \<Rightarrow> safe_games
           | Inr odds_decimal \<Rightarrow>
               proposals_loop ps
                 (if safe_odds odds_decimal
                  then safe_games @ [\<lparr>element = p, odds = odds_decimal\<rparr>]
                  else safe_games)))"

fun games_loop :: "game list \<Rightarrow> safe_game list \<Rightarrow> safe_game list" where
  "games_loop [] safe_games = safe_games"
| "games_loop (g # gs) safe_games =
     (case g of
        Inl e \<Rightarrow> games_loop gs safe_games
      | Inr proposals \<Rightarrow> games_loop gs (proposals_loop proposals safe_games))"

text \<open>
  \<^verbatim>\<open>
  current_payout = 1.0
  parlay_selections = []
  for game_data in safe_games:
      if current_payout >= max_payout:
          break
      game_data['element'].click()
      time.sleep(1)
      current_payout = self._get_current_payout()
      parlay_selections.append(game_data)
      if min_payout <= current_payout <= max_payout:
          return True
  return current_payout >= min_payout
  \<close>
  \<open>read n\<close> is what \<^verbatim>\<open>_get_current_payout\<close> returns at its \<open>n\<close>-th call, that is after the
  \<open>n\<close>-th click. The result keeps, beside the returned boolean, the selections made and
  the last payout read.
\<close>

record parlay =
  placed :: bool
  parlay_selections :: "safe_game list"
  current_payout :: pyfloat

fun parlay_loop ::
  "(nat \<Rightarrow> py_exception + pyfloat) \<Rightarrow> pyfloat \<Rightarrow> pyfloat \<Rightarrow> safe_game list \<Rightarrow>
   safe_game list \<Rightarrow> pyfloat \<Rightarrow> py_exception + parlay" where
  "parlay_loop read min_payout max_payout [] sel cur =
     Inr \<lparr>placed = py_ge cur min_payout, parlay_selections = sel, current_payout = cur\<rparr>"
| "parlay_loop read min_payout max_payout (game_data # rest) sel cur =
     (if py_ge cur max_payout
      then Inr \<lparr>placed = py_ge cur min_payout, parlay_selections = sel, current_payout = cur\<rparr>
      else (case click (element game_data) of
              Some e \<Rightarrow> Inl e
            | None \<Rightarrow>
                (case read (Suc (length sel)) of
                   Inl e \<Rightarrow> Inl e
                 | Inr p \<Rightarrow>
                     if py_le min_payout p \<and> py_le p max_payout
                     then Inr \<lparr>placed = True, parlay_selections = sel @ [game_data],
                               current_payout = p\<rparr>
                     else parlay_loop read min_payout max_payout rest (sel @ [game_data]) p)))"

definition build_parlay ::
  "(nat \<Rightarrow> py_exception + pyfloat) \<Rightarrow> pyfloat \<Rightarrow> pyfloat \<Rightarrow> safe_game list \<Rightarrow>
   py_exception + parlay" where
  "build_parlay read min_payout max_payout safe_games =
     parlay_loop read min_payout max_payout safe_games [] (Fin 1)"

text \<open>
  The sports page: the game cards found after navigating there (or the exception of the
  navigation or of the enumeration) and the bet slip as \<^verbatim>\<open>wait_for_selector\<close> finds it
  after each click.
\<close>

record sports_page =
  games :: "py_exception + game list"
  bet_slip :: "nat \<Rightarrow> py_exception + string option"

definition execute_strategy :: "pyfloat \<Rightarrow> pyfloat \<Rightarrow> sports_page \<Rightarrow> py_exception + bool" where
  "execute_strategy min_payout max_payout page =
     (case games page of
        Inl e \<Rightarrow> Inl e
      | Inr gs \<Rightarrow>
          if gs = [] then Inr False
          else (let safe_games = games_loop gs [] in
                if safe_games = [] then Inr False
                else then_exc
                       (build_parlay (\<lambda>n. get_current_payout (bet_slip page n))
                          min_payout max_payout safe_games)
                       (\<lambda>r. Inr (placed r))))"

definition execute_betting_strategy ::
  "pyfloat \<Rightarrow> pyfloat \<Rightarrow> (nat \<Rightarrow> sports_page) \<Rightarrow> bool retry_run" where
  "execute_betting_strategy min_payout max_payout pages =
     retry_default (\<lambda>attempt. execute_strategy min_payout max_payout (pages attempt))"

section \<open>Configuration and construction\<close>

text \<open>
  The process environment is a map from names to values; \<^verbatim>\<open>os.getenv(name)\<close> is \<open>None\<close> for
  an absent name. \<^verbatim>\<open>if not value\<close> holds for \<open>None\<close> and for the empty string.
\<close>

type_synonym environ = "string \<rightharpoonup> string"

definition getenv_default :: "environ \<Rightarrow> string \<Rightarrow> string \<Rightarrow> string" where
  "getenv_default env name dflt = (case env name of None \<Rightarrow> dflt | Some v \<Rightarrow> v)"

definition falsy :: "string option \<Rightarrow> bool" where
  "falsy v \<longleftrightarrow> v = None \<or> v = Some []"

text \<open>
  \<^verbatim>\<open>
  class FliffAutomator:
      def __init__(self):
          self.browser = None; self.context = None; self.page = None
          self.base_url = "https://fliff.com"
          self.latitude = float(os.getenv('GEOLOCATION_LATITUDE', '40.7128'))
          self.longitude = float(os.getenv('GEOLOCATION_LONGITUDE', '-74.0060'))
          self.selectors = {...}
  \<close>
  \<open>has_page\<close> says whether \<^verbatim>\<open>self.page\<close> is set. The selectors are constants of the model;
  the double quotes inside the two \<^verbatim>\<open>input[type=...]\<close> selectors are left out.
\<close>

record fliff_automator =
  base_url :: string
  latitude :: pyfloat
  longitude :: pyfloat
  has_page :: bool

definition login_button_selector :: string where
  "login_button_selector = ''.ticket-submit-button__label:has-text('LOGIN')''"

definition location_continue_selector :: string where
  "location_continue_selector = ''.button__label:has-text('Continue')''"

definition FliffAutomator_init :: "environ \<Rightarrow> py_exception + fliff_automator" where
  "FliffAutomator_init env =
     then_exc (py_float (getenv_default env ''GEOLOCATION_LATITUDE'' ''40.7128''))
       (\<lambda>lat. then_exc (py_float (getenv_default env ''GEOLOCATION_LONGITUDE'' ''-74.0060''))
          (\<lambda>lon. Inr \<lparr>base_url = ''https://fliff.com'', latitude = lat, longitude = lon,
                        has_page = False\<rparr>))"

text \<open>
  \<^verbatim>\<open>
  class GitHubAPIManager:
      def __init__(self):
          self.github_token = os.getenv('GITHUB_TOKEN')
          self.github_repository = os.getenv('GITHUB_REPOSITORY')
          self.workflow_filename = 'main.yml'
          if not self.github_token:
              raise ValueError("GITHUB_TOKEN environment variable is required")
          if not self.github_repository:
              raise ValueError("GITHUB_REPOSITORY environment variable is required")
  \<close>
\<close>

record github_manager =
  github_token :: string
  github_repository :: string
  workflow_filename :: string

definition GitHubAPIManager_init :: "environ \<Rightarrow> py_exception + github_manager" where
  "GitHubAPIManager_init env =
     (if falsy (env ''GITHUB_TOKEN'')
      then Inl (ValueError ''GITHUB_TOKEN environment variable is required'')
      else if falsy (env ''GITHUB_REPOSITORY'')
      then Inl (ValueError ''GITHUB_REPOSITORY environment variable is required'')
      else Inr \<lparr>github_token = the (env ''GITHUB_TOKEN''),
                github_repository = the (env ''GITHUB_REPOSITORY''),
                workflow_filename = ''main.yml''\<rparr>)"

text \<open>
  \<^verbatim>\<open>
  class TelegramNotifier:
      def __init__(self):
          self.bot_token = os.getenv('TELEGRAM_BOT_TOKEN')
          self.chat_id = os.getenv('TELEGRAM_CHAT_ID')
          if not self.bot_token:
              raise ValueError("TELEGRAM_BOT_TOKEN environment variable is required")
          if not self.chat_id:
              raise ValueError("TELEGRAM_CHAT_ID environment variable is required")
          self.bot = Bot(token=self.bot_token)
  \<close>
  The constructor of the library's \<^verbatim>\<open>Bot\<close> is a parameter: what it raises, if anything,
  for a token.
\<close>

record telegram_notifier =
  bot_token :: string
  chat_id :: string

definition TelegramNotifier_init ::
  "(string \<Rightarrow> py_exception option) \<Rightarrow> environ \<Rightarrow> py_exception + telegram_notifier" where
  "TelegramNotifier_init Bot env =
     (if falsy (env ''TELEGRAM_BOT_TOKEN'')
      then Inl (ValueError ''TELEGRAM_BOT_TOKEN environment variable is required'')
      else if falsy (env ''TELEGRAM_CHAT_ID'')
      then Inl (ValueError ''TELEGRAM_CHAT_ID environment variable is required'')
      else (case Bot (the (env ''TELEGRAM_BOT_TOKEN'')) of
              Some e \<Rightarrow> Inl e
            | None \<Rightarrow> Inr \<lparr>bot_token = the (env ''TELEGRAM_BOT_TOKEN''),
                           chat_id = the (env ''TELEGRAM_CHAT_ID'')\<rparr>))"

text \<open>
  \<^verbatim>\<open>
  class FliffBotOrchestrator:
      def __init__(self):
          self.goal_balance = 10.00
          self.min_bet_threshold = 1.80
          self.min_payout_threshold = 50.00
          self.max_payout_threshold = 100.00
          self.automator = FliffAutomator()
          self.github_manager = GitHubAPIManager()
          self.telegram_notifier = TelegramNotifier()
  \<close>
\<close>

record orchestrator =
  goal_balance :: pyfloat
  min_bet_threshold :: pyfloat
  min_payout_threshold :: pyfloat
  max_payout_threshold :: pyfloat
  automator :: fliff_automator
  manager :: github_manager
  notifier :: telegram_notifier

definition FliffBotOrchestrator_init ::
  "(string \<Rightarrow> py_exception option) \<Rightarrow> environ \<Rightarrow> py_exception + orchestrator" where
  "FliffBotOrchestrator_init Bot env =
     then_exc (FliffAutomator_init env)
       (\<lambda>a. then_exc (GitHubAPIManager_init env)
          (\<lambda>g. then_exc (TelegramNotifier_init Bot env)
             (\<lambda>t. Inr \<lparr>goal_balance = Fin 10, min_bet_threshold = Fin (9 / 5),
                        min_payout_threshold = Fin 50, max_payout_threshold = Fin 100,
                        automator = a, manager = g, notifier = t\<rparr>)))"

section \<open>Login\<close>

text \<open>
  \<^verbatim>\<open>
  def _login():
      if not self.page:
          self._setup_browser()
      self.page.goto(f"{self.base_url}/login")
      login_button = self.page.wait_for_selector(self.selectors['login_button'])
      if not login_button:
          raise Exception("Login button not found")
      self.page.fill('input[type="text"]', os.getenv('FLIFF_USERNAME'))
      self.page.fill('input[type="password"]', os.getenv('FLIFF_PASSWORD'))
      login_button.click()
      try:
          location_continue = self.page.wait_for_selector(self.selectors['location_continue'], timeout=5000)
          if location_continue:
              location_continue.click()
      except:
          logger.info("No location prompt found")
      self.page.wait_for_load_state('networkidle')
  \<close>
  The browser answers each call with an exception or with a boolean, which for
  \<^verbatim>\<open>wait_for_selector\<close> says whether an element was returned. One run of \<^verbatim>\<open>_login\<close> gives
  its result and the calls it made, with their arguments.
\<close>

datatype page_call =
    Setup_browser
  | Goto string
  | Wait_for_selector string
  | Fill string "string option"
  | Click_element string
  | Wait_for_load_state string

type_synonym browser = "page_call \<Rightarrow> py_exception + bool"

fun perform :: "browser \<Rightarrow> page_call list \<Rightarrow> page_call list \<Rightarrow> py_exception option \<times> page_call list" where
  "perform br [] made = (None, made)"
| "perform br (c # cs) made =
     (case br c of
        Inl e \<Rightarrow> (Some e, made @ [c])
      | Inr found \<Rightarrow> perform br cs (made @ [c]))"

definition location_prompt :: "browser \<Rightarrow> page_call list" where
  "location_prompt br =
     Wait_for_selector location_continue_selector #
     (case br (Wait_for_selector location_continue_selector) of
        Inl e \<Rightarrow> []
      | Inr found \<Rightarrow> if found then [Click_element location_continue_selector] else [])"

definition login_attempt ::
  "environ \<Rightarrow> browser \<Rightarrow> fliff_automator \<Rightarrow> (py_exception + unit) \<times> page_call list" where
  "login_attempt env br self =
     (case perform br
             ((if has_page self then [] else [Setup_browser]) @
              [Goto (base_url self @ ''/login''), Wait_for_selector login_button_selector]) [] of
        (Some e, made) \<Rightarrow> (Inl e, made)
      | (None, made) \<Rightarrow>
          if br (Wait_for_selector login_button_selector) = Inr False
          then (Inl (Exception ''Login button not found''), made)
          else (case perform br
                       [Fill ''input[type=text]'' (env ''FLIFF_USERNAME''),
                        Fill ''input[type=password]'' (env ''FLIFF_PASSWORD''),
                        Click_element login_button_selector] made of
                  (Some e, made) \<Rightarrow> (Inl e, made)
                | (None, made) \<Rightarrow>
                    (case perform br [Wait_for_load_state ''networkidle'']
                            (made @ location_prompt br) of
                       (Some e, made) \<Rightarrow> (Inl e, made)
                     | (None, made) \<Rightarrow> (Inr (), made))))"

section \<open>Disabling the workflow\<close>

text \<open>
  The values of a decoded JSON document. An object is the list of its items, the keys
  distinct; \<^verbatim>\<open>d.get(key, default)\<close> looks the key up.
\<close>

datatype json =
    JNull
  | JBool bool
  | JNum int
  | JStr string
  | JArr "json list"
  | JObj "(string \<times> json) list"

definition dict_get :: "(string \<times> json) list \<Rightarrow> string \<Rightarrow> json \<Rightarrow> json" where
  "dict_get d key dflt = (case map_of d key of None \<Rightarrow> dflt | Some v \<Rightarrow> v)"

text \<open>
  A response of the \<^verbatim>\<open>requests\<close> library: its status and what \<^verbatim>\<open>response.json()\<close> gives.
  \<^verbatim>\<open>raise_for_status()\<close> raises \<^verbatim>\<open>HTTPError\<close>, a \<^verbatim>\<open>RequestException\<close>, for a status from
  400 to 599. The remote service is a parameter: the answer to the \<^verbatim>\<open>GET\<close> of a URL and
  to the \<^verbatim>\<open>PUT\<close> that disables a workflow, given the repository's URL and the workflow's
  \<^verbatim>\<open>id\<close> that the source formats into the URL.
\<close>

record response =
  status_code :: nat
  json_body :: "py_exception + json"

definition raise_for_status :: "response \<Rightarrow> py_exception option" where
  "raise_for_status r =
     (if 400 \<le> status_code r \<and> status_code r < 600 then Some (HTTPError (status_code r))
      else None)"

record github_api =
  requests_get :: "string \<Rightarrow> (string \<times> string) list \<Rightarrow> py_exception + response"
  requests_put :: "string \<Rightarrow> json \<Rightarrow> (string \<times> string) list \<Rightarrow> py_exception + response"

definition repository_url :: "github_manager \<Rightarrow> string" where
  "repository_url self = ''https://api.github.com/repos/'' @ github_repository self"

definition workflows_url :: "github_manager \<Rightarrow> string" where
  "workflows_url self = repository_url self @ ''/actions/workflows''"

definition headers :: "github_manager \<Rightarrow> (string \<times> string) list" where
  "headers self =
     [(''Authorization'', ''token '' @ github_token self),
      (''Accept'', ''application/vnd.github.v3+json'')]"

definition workflow_path :: "github_manager \<Rightarrow> string" where
  "workflow_path self = ''.github/workflows/'' @ workflow_filename self"

text \<open>
  \<^verbatim>\<open>
  response = requests.get(workflows_url, headers=headers)
  response.raise_for_status()
  workflows = response.json().get('workflows', [])
  \<close>
  \<^verbatim>\<open>.get\<close> exists on a dictionary only.
\<close>

definition get_workflows :: "github_manager \<Rightarrow> github_api \<Rightarrow> py_exception + json" where
  "get_workflows self api =
     then_exc (requests_get api (workflows_url self) (headers self))
       (\<lambda>response.
          case raise_for_status response of
            Some e \<Rightarrow> Inl e
          | None \<Rightarrow>
              then_exc (json_body response)
                (\<lambda>doc. case doc of
                          JObj d \<Rightarrow> Inr (dict_get d ''workflows'' (JArr []))
                        | _ \<Rightarrow> Inl (AttributeError ''object has no attribute get'')))"

text \<open>
  \<^verbatim>\<open>
  target_workflow = None
  for workflow in workflows:
      if workflow.get('path') == f'.github/workflows/{self.workflow_filename}':
          target_workflow = workflow
          break
  \<close>
  Iterating a list gives its elements, a dictionary its keys, a string its characters;
  the other values are not iterable.
\<close>

definition iterate :: "json \<Rightarrow> py_exception + json list" where
  "iterate v =
     (case v of
        JArr xs \<Rightarrow> Inr xs
      | JObj d \<Rightarrow> Inr (map (\<lambda>kv. JStr (fst kv)) d)
      | JStr s \<Rightarrow> Inr (map (\<lambda>c. JStr [c]) s)
      | _ \<Rightarrow> Inl (TypeError ''object is not iterable''))"

fun find_workflow :: "string \<Rightarrow> json list \<Rightarrow> py_exception + json option" where
  "find_workflow path [] = Inr None"
| "find_workflow path (workflow # rest) =
     (case workflow of
        JObj d \<Rightarrow> if dict_get d ''path'' JNull = JStr path then Inr (Some workflow)
                  else find_workflow path rest
      | _ \<Rightarrow> Inl (AttributeError ''object has no attribute get''))"

text \<open>
  \<^verbatim>\<open>
  workflow_id = target_workflow['id']
  response = requests.put(disable_url, headers=headers)
  response.raise_for_status()
  return True
  \<close>
\<close>

definition put_disable :: "github_manager \<Rightarrow> github_api \<Rightarrow> (string \<times> json) list \<Rightarrow> py_exception + bool" where
  "put_disable self api target_workflow =
     (case map_of target_workflow ''id'' of
        None \<Rightarrow> Inl (KeyError ''id'')
      | Some workflow_id \<Rightarrow>
          then_exc (requests_put api (repository_url self) workflow_id (headers self))
            (\<lambda>response. case raise_for_status response of
                           Some e \<Rightarrow> Inl e
                         | None \<Rightarrow> Inr True))"

definition disable_workflow_try :: "github_manager \<Rightarrow> github_api \<Rightarrow> py_exception + bool" where
  "disable_workflow_try self api =
     then_exc (get_workflows self api)
       (\<lambda>workflows. then_exc (iterate workflows)
          (\<lambda>items. then_exc (find_workflow (workflow_path self) items)
             (\<lambda>target_workflow.
                case target_workflow of
                  Some (JObj d) \<Rightarrow> if d = [] then Inr False else put_disable self api d
                | _ \<Rightarrow> Inr False)))"

text \<open>
  \<^verbatim>\<open>
  try: ...
  except requests.exceptions.RequestException as e:
      logger.error(...); return False
  except Exception as e:
      logger.error(...); return False
  \<close>
\<close>

definition is_request_exception :: "py_exception \<Rightarrow> bool" where
  "is_request_exception e = (case e of RequestException m \<Rightarrow> True | HTTPError c \<Rightarrow> True | _ \<Rightarrow> False)"

definition disable_workflow :: "github_manager \<Rightarrow> github_api \<Rightarrow> py_exception + bool" where
  "disable_workflow self api =
     (case disable_workflow_try self api of
        Inr b \<Rightarrow> Inr b
      | Inl e \<Rightarrow> if is_request_exception e then Inr False else Inr False)"

section \<open>The orchestrator\<close>

text \<open>
  What \<^verbatim>\<open>run\<close> does is recorded as the sequence of calls it completes on its three
  components, on the file system and, for a notification, with the arguments passed.
\<close>

datatype py_value = Float pyfloat | Str string

datatype status_message =
    Bot_started
  | Balance_insufficient pyfloat
  | No_suitable_parlay

datatype event =
    Send_status_update status_message
  | Login
  | Get_balance
  | Send_success_notification pyfloat
  | Disable_workflow
  | Check_open_wagers
  | Check_and_claim_rewards
  | Execute_betting_strategy pyfloat pyfloat
  | Take_bet_screenshot
  | Get_current_payout
  | Send_bet_confirmation py_value py_value py_value
  | Take_error_screenshot
  | Send_error_notification py_exception string
  | Close
  | Remove_file string

text \<open>
  The outcomes of the automator's operations during one run, as the browser makes them:
  \<open>balance_result n\<close> is the outcome of the \<open>n\<close>-th call of \<^verbatim>\<open>get_balance\<close> (from 0). The
  two screenshot operations return a path, empty on failure, and never raise; the
  notifier's operations and \<^verbatim>\<open>disable_workflow\<close> return a boolean that \<^verbatim>\<open>run\<close> ignores,
  and \<^verbatim>\<open>close\<close> never raises.
\<close>

record world =
  login_result :: "py_exception option"
  balance_result :: "nat \<Rightarrow> py_exception + pyfloat"
  open_wagers_result :: "py_exception + bool"
  claim_rewards_result :: "py_exception option"
  strategy_result :: "py_exception + bool"
  slip_payout_result :: "py_exception + pyfloat"
  bet_screenshot_result :: string
  error_screenshot_result :: string
  path_exists :: "string \<Rightarrow> bool"

record run_state =
  events :: "event list"
  balance_calls :: nat
  screenshot_path :: "string option"

type_synonym 'a step = "run_state \<Rightarrow> (py_exception + 'a) \<times> run_state"

definition bind_step :: "'a step \<Rightarrow> ('a \<Rightarrow> 'b step) \<Rightarrow> 'b step" where
  "bind_step m f s = (case m s of (Inl e, s') \<Rightarrow> (Inl e, s') | (Inr v, s') \<Rightarrow> f v s')"

definition return_step :: "'a \<Rightarrow> 'a step" where
  "return_step v s = (Inr v, s)"

definition emit :: "event \<Rightarrow> unit step" where
  "emit ev s = (Inr (), s\<lparr>events := events s @ [ev]\<rparr>)"

text \<open>
  The attributes of a \<^verbatim>\<open>FliffAutomator\<close> object: the instance attributes set by
  \<^verbatim>\<open>__init__\<close> and the methods of the class (beside the attributes that every object
  has, none of which \<^verbatim>\<open>run\<close> calls). Looking up any other name raises
  \<^verbatim>\<open>AttributeError\<close>. A call of a method of the automator looks the name up, then the
  method runs: it is recorded and gives its outcome.
\<close>

definition FliffAutomator_attributes :: "string list" where
  "FliffAutomator_attributes =
     [''browser'', ''context'', ''page'', ''base_url'', ''latitude'', ''longitude'', ''selectors'',
      ''__init__'', ''_setup_browser'', ''_retry_operation'', ''login'', ''get_balance'',
      ''check_open_wagers'', ''check_and_claim_rewards'', ''execute_betting_strategy'',
      ''_convert_odds_to_decimal'', ''_get_current_payout'', ''place_bet'',
      ''take_bet_screenshot'', ''take_error_screenshot'', ''close'']"

definition automator_call :: "string \<Rightarrow> event list \<Rightarrow> py_exception + 'a \<Rightarrow> 'a step" where
  "automator_call name evs result s =
     (if name \<in> set FliffAutomator_attributes
      then (result, s\<lparr>events := events s @ evs\<rparr>)
      else (Inl (AttributeError (''FliffAutomator object has no attribute '' @ name)), s))"

definition get_balance :: "world \<Rightarrow> pyfloat step" where
  "get_balance w s =
     automator_call ''get_balance'' [Get_balance] (balance_result w (balance_calls s))
       (s\<lparr>balance_calls := Suc (balance_calls s)\<rparr>)"

definition unit_result :: "py_exception option \<Rightarrow> py_exception + unit" where
  "unit_result r = (case r of None \<Rightarrow> Inr () | Some e \<Rightarrow> Inl e)"

text \<open>
  \<^verbatim>\<open>
  def send_bet_confirmation(self, wager_amount: float, potential_payout: float,
                            screenshot_path: str) -> bool:
  \<close>
  A call with keyword arguments raises \<^verbatim>\<open>TypeError\<close> when a keyword is not a parameter
  of the method or a parameter without default gets no value; otherwise each parameter is
  bound to the value given under its name.
\<close>

definition send_bet_confirmation_parameters :: "string list" where
  "send_bet_confirmation_parameters = [''wager_amount'', ''potential_payout'', ''screenshot_path'']"

definition bind_keywords :: "string list \<Rightarrow> (string \<times> py_value) list \<Rightarrow> py_exception + py_value list" where
  "bind_keywords parameters kwargs =
     (case filter (\<lambda>k. k \<notin> set parameters) (map fst kwargs) of
        k # ks \<Rightarrow> Inl (TypeError (''got an unexpected keyword argument '' @ k))
      | [] \<Rightarrow>
          (case filter (\<lambda>p. map_of kwargs p = None) parameters of
             p # ps \<Rightarrow> Inl (TypeError (''missing required argument '' @ p))
           | [] \<Rightarrow> Inr (map (\<lambda>p. the (map_of kwargs p)) parameters)))"

definition send_bet_confirmation :: "(string \<times> py_value) list \<Rightarrow> unit step" where
  "send_bet_confirmation kwargs s =
     (case bind_keywords send_bet_confirmation_parameters kwargs of
        Inl e \<Rightarrow> (Inl e, s)
      | Inr args \<Rightarrow> emit (Send_bet_confirmation (args ! 0) (args ! 1) (args ! 2)) s)"

text \<open>
  \<^verbatim>\<open>
  if balance >= self.min_bet_threshold and not has_blocking_wagers:
      bet_placed = self.automator.execute_betting_strategy(
          min_payout=self.min_payout_threshold, max_payout=self.max_payout_threshold)
      if bet_placed:
          screenshot_path = self.automator.take_bet_screenshot()
          final_balance = self.automator.get_balance()
          potential_payout = self.automator.get_current_payout()
          self.telegram_notifier.send_bet_confirmation(
              wager_amount=final_balance,
              potential_potential_payout=potential_payout,
              screenshot_path=screenshot_path)
      else:
          self.telegram_notifier.send_status_update("No suitable parlay ...")
  \<close>
\<close>

definition set_screenshot_path :: "string \<Rightarrow> unit step" where
  "set_screenshot_path path s = (Inr (), s\<lparr>screenshot_path := Some path\<rparr>)"

definition betting_phase :: "orchestrator \<Rightarrow> world \<Rightarrow> pyfloat \<Rightarrow> bool \<Rightarrow> unit step" where
  "betting_phase self w balance has_blocking_wagers =
     (if py_ge balance (min_bet_threshold self) \<and> \<not> has_blocking_wagers
      then bind_step
             (automator_call ''execute_betting_strategy''
                [Execute_betting_strategy (min_payout_threshold self) (max_payout_threshold self)]
                (strategy_result w))
             (\<lambda>bet_placed.
                if bet_placed
                then bind_step
                       (automator_call ''take_bet_screenshot'' [Take_bet_screenshot]
                          (Inr (bet_screenshot_result w)))
                       (\<lambda>path. bind_step (set_screenshot_path path)
                          (\<lambda>u. bind_step (get_balance w)
                             (\<lambda>final_balance. bind_step
                                (automator_call ''get_current_payout'' [Get_current_payout]
                                   (slip_payout_result w))
                                (\<lambda>potential_payout.
                                   send_bet_confirmation
                                     [(''wager_amount'', Float final_balance),
                                      (''potential_potential_payout'', Float potential_payout),
                                      (''screenshot_path'', Str path)]))))
                else emit (Send_status_update No_suitable_parlay))
      else return_step ())"

text \<open>
  \<^verbatim>\<open>
  self.telegram_notifier.send_status_update("Bot started execution")
  self.automator.login()
  balance = self.automator.get_balance()
  if balance >= self.goal_balance:
      self.telegram_notifier.send_success_notification(balance)
      self.github_manager.disable_workflow()
      return
  has_blocking_wagers = self.automator.check_open_wagers()
  if balance < self.min_bet_threshold and not has_blocking_wagers:
      self.automator.check_and_claim_rewards()
      balance = self.automator.get_balance()
      if balance < self.min_bet_threshold:
          self.telegram_notifier.send_status_update(...)
          return
  \<close>
  followed by the betting phase.
\<close>

definition run_try :: "orchestrator \<Rightarrow> world \<Rightarrow> unit step" where
  "run_try self w =
     bind_step (emit (Send_status_update Bot_started))
       (\<lambda>u. bind_step (automator_call ''login'' [Login] (unit_result (login_result w)))
          (\<lambda>u. bind_step (get_balance w)
             (\<lambda>balance.
                if py_ge balance (goal_balance self)
                then bind_step (emit (Send_success_notification balance))
                       (\<lambda>u. emit Disable_workflow)
                else bind_step
                       (automator_call ''check_open_wagers'' [Check_open_wagers]
                          (open_wagers_result w))
                       (\<lambda>has_blocking_wagers.
                          if py_lt balance (min_bet_threshold self) \<and> \<not> has_blocking_wagers
                          then bind_step
                                 (automator_call ''check_and_claim_rewards''
                                    [Check_and_claim_rewards] (unit_result (claim_rewards_result w)))
                                 (\<lambda>u. bind_step (get_balance w)
                                    (\<lambda>balance.
                                       if py_lt balance (min_bet_threshold self)
                                       then emit (Send_status_update (Balance_insufficient balance))
                                       else betting_phase self w balance has_blocking_wagers))
                          else betting_phase self w balance has_blocking_wagers))))"

text \<open>
  \<^verbatim>\<open>
  def run(self):
      screenshot_path = None
      try: ...
      except Exception as e:
          screenshot_path = self.automator.take_error_screenshot()
          self.telegram_notifier.send_error_notification(str(e), screenshot_path)
      finally:
          try:
              self.automator.close()
              if screenshot_path and os.path.exists(screenshot_path):
                  os.remove(screenshot_path)
          except Exception as e:
              logger.error(...)
  \<close>
\<close>

definition run_except :: "world \<Rightarrow> py_exception \<Rightarrow> unit step" where
  "run_except w e =
     bind_step
       (automator_call ''take_error_screenshot'' [Take_error_screenshot]
          (Inr (error_screenshot_result w)))
       (\<lambda>path. bind_step (set_screenshot_path path)
          (\<lambda>u. emit (Send_error_notification e path)))"

definition run_finally :: "world \<Rightarrow> unit step" where
  "run_finally w =
     bind_step (automator_call ''close'' [Close] (Inr ()))
       (\<lambda>u s. case screenshot_path s of
                 None \<Rightarrow> (Inr (), s)
               | Some path \<Rightarrow> if path \<noteq> [] \<and> path_exists w path then emit (Remove_file path) s
                              else (Inr (), s))"

definition run :: "orchestrator \<Rightarrow> world \<Rightarrow> (py_exception + unit) \<times> run_state" where
  "run self w =
     (let (r, s) = run_try self w \<lparr>events = [], balance_calls = 0, screenshot_path = None\<rparr>;
          (r, s) = (case r of Inl e \<Rightarrow> run_except w e s | Inr u \<Rightarrow> (Inr (), s));
          (f, s') = run_finally w s
      in (r, s'))"

section \<open>Properties of the retry executor\<close>

lemma range_py_3: "range_py 3 = [0, 1, 2]"
  by code_simp

lemma retry_default_first:
  "operation 0 = Inr v \<Longrightarrow>
   retry_default operation = \<lparr>outcome = Inr (Some v), calls = 1, sleeps = []\<rparr>"
  by (simp add: retry_default_def retry_operation_def range_py_3)

lemma retry_default_same:
  "retry_default (\<lambda>attempt. r) =
     (case r of
        Inr v \<Rightarrow> \<lparr>outcome = Inr (Some v), calls = 1, sleeps = []\<rparr>
      | Inl e \<Rightarrow> \<lparr>outcome = Inl e, calls = 3, sleeps = [2, 4]\<rparr>)"
  by (cases r) (simp_all add: retry_default_def retry_operation_def range_py_3)

lemma retry_operation_no_attempt:
  "max_retries \<le> 0 \<Longrightarrow>
   retry_operation operation max_retries delay = \<lparr>outcome = Inr None, calls = 0, sleeps = []\<rparr>"
  by (simp add: retry_operation_def range_py_def)

lemma retry_for_all_fail:
  assumes "\<forall>k < length atts. operation (n + k) = Inl (err (n + k))"
    and "0 \<le> delay"
    and "atts = [a..<m]" and "a < m" and "max_retries = int m"
  shows "retry_for operation max_retries delay atts n ws =
     \<lparr>outcome = Inl (err (n + (m - a - 1))), calls = n + (m - a),
      sleeps = ws @ map (\<lambda>k. delay * 2 ^ k) [a..<m - 1]\<rparr>"
  using assms
proof (induction atts arbitrary: a n ws)
  case Nil
  from Nil.prems(4) have "[a..<m] = a # [Suc a..<m]"
    by (rule upt_conv_Cons)
  with Nil.prems(3) show ?case by simp
next
  case (Cons x xs)
  from Cons.prems(3,4) have x: "x = a" and xs: "xs = [Suc a..<m]"
    by (simp_all add: upt_conv_Cons)
  from Cons.prems(1) have e: "operation n = Inl (err n)"
    by fastforce
  show ?case
  proof (cases "Suc a = m")
    case True
    then show ?thesis using e x Cons.prems(5) by auto
  next
    case False
    with Cons.prems(4) have lt: "Suc a < m" by simp
    have nonneg: "\<not> delay * 2 ^ a < 0"
      using Cons.prems(2) by (simp add: mult_less_0_iff)
    have fails: "\<forall>k < length xs. operation (Suc n + k) = Inl (err (Suc n + k))"
    proof (intro allI impI)
      fix k assume "k < length xs"
      then have "Suc k < length (x # xs)" by simp
      with Cons.prems(1) have "operation (n + Suc k) = Inl (err (n + Suc k))"
        by blast
      then show "operation (Suc n + k) = Inl (err (Suc n + k))"
        by simp
    qed
    have ih: "retry_for operation max_retries delay xs (Suc n) (ws @ [delay * 2 ^ a]) =
       \<lparr>outcome = Inl (err (Suc n + (m - Suc a - 1))), calls = Suc n + (m - Suc a),
        sleeps = (ws @ [delay * 2 ^ a]) @ map (\<lambda>k. delay * 2 ^ k) [Suc a..<m - 1]\<rparr>"
      by (rule Cons.IH [OF fails Cons.prems(2) xs lt Cons.prems(5)])
    have idx: "Suc n + (m - Suc a - 1) = n + (m - a - 1)" "Suc n + (m - Suc a) = n + (m - a)"
      using lt by simp_all
    have upt: "[a..<m - 1] = a # [Suc a..<m - 1]"
      using lt by (simp add: upt_conv_Cons)
    have ne: "int a \<noteq> int m - 1" using lt by simp
    show ?thesis
      using e x ne nonneg ih idx upt Cons.prems(5) by (simp add: Let_def)
  qed
qed

text \<open>
  C4. A unit that succeeds on its first attempt is called once and its result returned; a
  unit that fails once and then succeeds is called twice, after one sleep of \<open>delay\<close>, and
  the success result is returned; a unit that fails on every attempt is called
  \<open>max_retries\<close> times, the executor sleeps \<open>delay * 2 ^ attempt\<close> after each attempt but
  the last, and the exception of the last attempt is the outcome, as raised.
\<close>

theorem retry_operation_contract:
  assumes "1 \<le> max_retries" and "0 \<le> delay"
  shows "(operation 0 = Inr v \<longrightarrow>
            retry_operation operation max_retries delay =
              \<lparr>outcome = Inr (Some v), calls = 1, sleeps = []\<rparr>)
       \<and> (operation 0 = Inl e \<and> operation 1 = Inr v \<and> 2 \<le> max_retries \<longrightarrow>
            retry_operation operation max_retries delay =
              \<lparr>outcome = Inr (Some v), calls = 2, sleeps = [delay]\<rparr>)
       \<and> ((\<forall>k < nat max_retries. operation k = Inl (err k)) \<longrightarrow>
            retry_operation operation max_retries delay =
              \<lparr>outcome = Inl (err (nat max_retries - 1)), calls = nat max_retries,
               sleeps = map (\<lambda>attempt. delay * 2 ^ attempt) [0..<nat max_retries - 1]\<rparr>)"
proof (intro conjI impI)
  obtain m where m: "nat max_retries = Suc m"
    using assms(1) by (cases "nat max_retries") auto
  have r: "range_py max_retries = 0 # [1..<Suc m]"
    using m by (simp add: range_py_def upt_conv_Cons)
  {
    assume "operation 0 = Inr v"
    then show "retry_operation operation max_retries delay =
        \<lparr>outcome = Inr (Some v), calls = 1, sleeps = []\<rparr>"
      by (simp add: retry_operation_def r)
  }
  {
    assume a: "operation 0 = Inl e \<and> operation 1 = Inr v \<and> 2 \<le> max_retries"
    then obtain m' where m': "m = Suc m'"
      using m by (cases m) auto
    have "[1..<Suc m] = 1 # [Suc 1..<Suc m]"
      by (rule upt_conv_Cons) (simp add: m')
    then have r2: "range_py max_retries = 0 # 1 # [2..<Suc m]"
      using r by (simp add: numeral_2_eq_2)
    have nonneg: "\<not> delay < 0" using assms(2) by simp
    have ne: "max_retries - 1 \<noteq> 0" using a by simp
    show "retry_operation operation max_retries delay =
        \<lparr>outcome = Inr (Some v), calls = 2, sleeps = [delay]\<rparr>"
      using a nonneg ne by (simp add: retry_operation_def r2 Let_def)
  }
  {
    assume a: "\<forall>k < nat max_retries. operation k = Inl (err k)"
    have mr: "max_retries = int (Suc m)" using m assms(1) by linarith
    have "retry_for operation max_retries delay [0..<Suc m] 0 [] =
       \<lparr>outcome = Inl (err (0 + (Suc m - 0 - 1))), calls = 0 + (Suc m - 0),
        sleeps = [] @ map (\<lambda>k. delay * 2 ^ k) [0..<Suc m - 1]\<rparr>"
      by (rule retry_for_all_fail [OF _ assms(2) refl _ mr]) (use a m in auto)
    then show "retry_operation operation max_retries delay =
        \<lparr>outcome = Inl (err (nat max_retries - 1)), calls = nat max_retries,
         sleeps = map (\<lambda>attempt. delay * 2 ^ attempt) [0..<nat max_retries - 1]\<rparr>"
      using a m by (simp add: retry_operation_def range_py_def)
  }
qed

theorem retry_operation_contract_witness:
  "retry_operation (\<lambda>k. Inr ''success'') 3 2 =
     \<lparr>outcome = Inr (Some ''success''), calls = 1, sleeps = []\<rparr>
   \<and> retry_operation
       (\<lambda>k. if k = 0 then Inl (Exception ''First attempt failed'') else Inr ''success'') 3 2 =
     \<lparr>outcome = Inr (Some ''success''), calls = 2, sleeps = [2]\<rparr>
   \<and> retry_operation (\<lambda>k. Inl (Exception ''Operation failed'') :: py_exception + string) 3 2 =
     \<lparr>outcome = Inl (Exception ''Operation failed''), calls = 3, sleeps = [2, 4]\<rparr>"
proof (intro conjI)
  show "retry_operation (\<lambda>k. Inr ''success'') 3 2 =
     \<lparr>outcome = Inr (Some ''success''), calls = 1, sleeps = []\<rparr>"
    using retry_operation_contract
      [of 3 2 "\<lambda>k. Inr ''success''" "''success''" "Exception []" "\<lambda>k. Exception []"]
    by simp
  show "retry_operation
       (\<lambda>k. if k = 0 then Inl (Exception ''First attempt failed'') else Inr ''success'') 3 2 =
     \<lparr>outcome = Inr (Some ''success''), calls = 2, sleeps = [2]\<rparr>"
    using retry_operation_contract
      [of 3 2 "\<lambda>k. if k = 0 then Inl (Exception ''First attempt failed'') else Inr ''success''"
          "''success''" "Exception ''First attempt failed''" "\<lambda>k. Exception []"]
    by simp
  have upt: "[0..<2] = [0, Suc 0]"
    by (simp add: upt_conv_Cons)
  show "retry_operation (\<lambda>k. Inl (Exception ''Operation failed'') :: py_exception + string) 3 2 =
     \<lparr>outcome = Inl (Exception ''Operation failed''), calls = 3, sleeps = [2, 4]\<rparr>"
    using retry_operation_contract
      [of 3 2 "\<lambda>k. Inl (Exception ''Operation failed'')" "[]" "Exception []"
          "\<lambda>k. Exception ''Operation failed''"]
    by (simp add: upt)
qed

section \<open>Properties of the text functions\<close>

lemma dropWhile_none: "(\<forall>x\<in>set xs. \<not> P x) \<Longrightarrow> dropWhile P xs = xs"
  by (cases xs) auto

lemma digit_not_space: "is_digit c \<Longrightarrow> \<not> isspace c" "is_digit c \<Longrightarrow> \<not> float_space c"
  by (auto simp: is_digit_def isspace_def float_space_def)

lemma digit_not_symbol:
  "is_digit c \<Longrightarrow> c \<noteq> CHR ''_''" "is_digit c \<Longrightarrow> c \<noteq> CHR ''+''"
  "is_digit c \<Longrightarrow> c \<noteq> CHR ''-''" "is_digit c \<Longrightarrow> c \<noteq> CHR ''.''"
  "is_digit c \<Longrightarrow> c \<noteq> CHR '',''"
  "is_digit c \<Longrightarrow> c \<noteq> CHR ''i''" "is_digit c \<Longrightarrow> c \<noteq> CHR ''n''"
  by (auto simp: is_digit_def)

lemma digit_lower: "is_digit c \<Longrightarrow> ascii_lower c = c"
  by (auto simp: is_digit_def ascii_lower_def)

lemma strip_digits: "list_all is_digit ds \<Longrightarrow> strip ds = ds"
  by (simp add: strip_def dropWhile_none digit_not_space list_all_iff)

lemma float_strip_digits: "list_all is_digit ds \<Longrightarrow> float_strip ds = ds"
  by (simp add: float_strip_def dropWhile_none digit_not_space list_all_iff)

lemma underscores_ok_none:
  "CHR ''_'' \<notin> set s \<Longrightarrow> prev \<noteq> Some CHR ''_'' \<Longrightarrow> underscores_ok prev s"
  by (induction s arbitrary: prev) auto

lemma filter_none: "CHR ''_'' \<notin> set s \<Longrightarrow> filter (\<lambda>c. c \<noteq> CHR ''_'') s = s"
  by (induction s) auto

lemma lower_digits: "list_all is_digit ds \<Longrightarrow> lower ds = ds"
  by (induction ds) (auto simp: lower_def digit_lower)

lemma int_of_digits_nonneg: "list_all is_digit ds \<Longrightarrow> 0 \<le> int_of_digits ds"
proof -
  have "list_all is_digit ds \<Longrightarrow> 0 \<le> a \<Longrightarrow> 0 \<le> foldl (\<lambda>a c. 10 * a + digit_val c) a ds" for a
  proof (induction ds arbitrary: a)
    case Nil
    then show ?case by simp
  next
    case (Cons c cs)
    have "(of_char c :: int) = int (of_char c)"
      by (simp add: of_nat_of_char)
    with Cons.prems have "0 \<le> digit_val c"
      by (simp add: is_digit_def digit_val_def)
    with Cons.prems have "0 \<le> 10 * a + digit_val c" by simp
    with Cons show ?case by simp
  qed
  then show "list_all is_digit ds \<Longrightarrow> 0 \<le> int_of_digits ds"
    by (simp add: int_of_digits_def)
qed

lemma parse_decimal_digits:
  assumes "ds \<noteq> []" "list_all is_digit ds"
  shows "parse_decimal ds = Some (of_int (int_of_digits ds))"
proof -
  have tw: "takeWhile is_digit ds = ds" and dw: "dropWhile is_digit ds = []"
    using assms(2) by (simp_all add: list_all_iff)
  show ?thesis
    unfolding parse_decimal_def tw dw using assms(1)
    by (simp add: parse_exponent_def)
qed

lemma py_float_digits:
  assumes "ds \<noteq> []" "list_all is_digit ds"
  shows "py_float ds = Inr (Fin (of_int (int_of_digits ds)))"
proof -
  obtain c cs where ds: "ds = c # cs" using assms(1) by (cases ds) auto
  have c: "is_digit c" using assms(2) ds by simp
  have nu: "CHR ''_'' \<notin> set ds"
    using assms(2) digit_not_symbol(1) by (auto simp: list_all_iff)
  have sign: "parse_sign ds = (False, ds)"
    using c digit_not_symbol(2,3) by (auto simp: parse_sign_def ds)
  have "ds \<noteq> ''inf''" "ds \<noteq> ''infinity''" "ds \<noteq> ''nan''"
    using c digit_not_symbol(6,7) by (auto simp: ds)
  then show ?thesis
    using assms nu sign
    by (simp add: py_float_def float_strip_digits underscores_ok_none filter_none
        lower_digits parse_decimal_digits)
qed

section \<open>Properties of the odds conversion\<close>







lemma pow2_less: "a < b \<Longrightarrow> (2::rat) powi a < 2 powi b"
  by (rule power_int_strict_increasing) simp_all























text \<open>
  Other texts that are accepted with a multiplier of at most 1, and the examples of the
  tests as the machine computes them: the multiplier of \<^verbatim>\<open>-250\<close> is the number that
  \<^verbatim>\<open>float\<close> reads from \<^verbatim>\<open>1.4\<close>.
\<close>

lemma convert_odds_binary64_examples:
  "convert_odds_to_decimal64 ''+0.00000000000000001'' = Inr (Fin 1)"
  "convert_odds_to_decimal64 ''0.5'' = Inr (Fin (1 / 2))"
  "convert_odds_to_decimal64 ''+150'' = Inr (Fin (5 / 2))"
  "convert_odds_to_decimal64 ''+100'' = Inr (Fin 2)"
  "convert_odds_to_decimal64 ''+200'' = Inr (Fin 3)"
  "convert_odds_to_decimal64 ''-200'' = Inr (Fin (3 / 2))"
  "convert_odds_to_decimal64 ''-250'' = py_float64 ''1.4''"
  "convert_odds_to_decimal64 ''2.5'' = Inr (Fin (5 / 2))"
  by code_simp+

section \<open>Properties of the wager check\<close>

lemma py_float_empty: "py_float [] = Inl float_error"
  by code_simp

lemma search_digits_commas_Some:
  assumes "search_digits_commas text = Some m"
  shows "m \<noteq> [] \<and> (\<forall>c\<in>set m. digit_or_comma c)"
proof -
  let ?r = "dropWhile (\<lambda>c. \<not> digit_or_comma c) text"
  from assms have ne: "?r \<noteq> []" and m: "m = takeWhile digit_or_comma ?r"
    by (auto simp: search_digits_commas_def Let_def split: if_splits)
  from ne have "digit_or_comma (hd ?r)"
    using hd_dropWhile [of "\<lambda>c. \<not> digit_or_comma c" "text"] by simp
  with ne have "m \<noteq> []"
    unfolding m by (cases ?r) auto
  moreover have "\<forall>c\<in>set m. digit_or_comma c"
    unfolding m by (auto dest: set_takeWhileD)
  ultimately show ?thesis by simp
qed

lemma remove_commas_digits:
  "\<forall>c\<in>set m. digit_or_comma c \<Longrightarrow> list_all is_digit (remove_commas m)"
  by (induction m) (auto simp: remove_commas_def digit_or_comma_def)

lemma slip_payout_cases:
  "slip_payout text = Inr None \<or> slip_payout text = Inl float_error
   \<or> (\<exists>n::nat. slip_payout text = Inr (Some (Fin (of_nat n))))"
proof (cases "contains (lower text) ''payout''")
  case False
  then show ?thesis by (simp add: slip_payout_def)
next
  case True
  show ?thesis
  proof (cases "search_digits_commas text")
    case None
    with True show ?thesis by (simp add: slip_payout_def)
  next
    case (Some m)
    then have d: "list_all is_digit (remove_commas m)"
      using search_digits_commas_Some remove_commas_digits by blast
    show ?thesis
    proof (cases "remove_commas m = []")
      case True
      with \<open>contains (lower text) ''payout''\<close> Some show ?thesis
        by (simp add: slip_payout_def py_float_empty then_exc_def)
    next
      case False
      with d have "py_float (remove_commas m)
          = Inr (Fin (of_nat (nat (int_of_digits (remove_commas m)))))"
        by (simp add: py_float_digits int_of_digits_nonneg)
      with \<open>contains (lower text) ''payout''\<close> Some show ?thesis
        by (simp add: slip_payout_def then_exc_def)
    qed
  qed
qed

lemma blocking_nat:
  assumes "slip_payout text = Inr (Some (Fin (of_nat n)))"
  shows "blocking text \<longleftrightarrow> 2 \<le> n"
proof -
  have "(9 / 5 < (of_nat n :: rat)) = (2 \<le> n)"
  proof
    assume "9 / 5 < (of_nat n :: rat)"
    then have "(1 :: rat) < of_nat n" by simp
    then have "1 < n" using of_nat_less_iff [of 1 n, where ?'a = rat] by simp
    then show "2 \<le> n" by simp
  next
    assume "2 \<le> n"
    then have "(2 :: rat) \<le> of_nat n" using of_nat_le_iff [of 2 n, where ?'a = rat] by simp
    then show "9 / 5 < (of_nat n :: rat)" by simp
  qed
  then show ?thesis
    using assms by (simp add: blocking_def py_gt_def)
qed

lemma search_digits_commas_displayed:
  assumes "\<forall>c\<in>set pre. \<not> digit_or_comma c" "whole \<noteq> []" "list_all is_digit whole"
  shows "search_digits_commas (pre @ whole @ CHR ''.'' # cents) = Some whole"
proof -
  have hdw: "digit_or_comma (hd whole)"
    using assms(2,3) by (cases whole) (auto simp: digit_or_comma_def)
  have dw: "dropWhile (\<lambda>c. \<not> digit_or_comma c) (pre @ whole @ CHR ''.'' # cents)
      = whole @ CHR ''.'' # cents"
    using assms(1,2) hdw by (cases whole) (auto simp: dropWhile_append)
  have dot: "\<not> digit_or_comma CHR ''.''"
    by (simp add: digit_or_comma_def is_digit_def)
  have tw: "takeWhile digit_or_comma (whole @ CHR ''.'' # cents) = whole"
    using assms(3) dot by (simp add: takeWhile_append list_all_iff digit_or_comma_def)
  show ?thesis
    using assms(2) by (simp add: search_digits_commas_def dw tw)
qed

lemma remove_commas_id: "list_all is_digit ds \<Longrightarrow> remove_commas ds = ds"
  using digit_not_symbol(5) by (induction ds) (auto simp: remove_commas_def)

text \<open>
  C9, as amended. The payout read from a slip is a natural number, since the match holds
  digits and commas only, so the slip is blocking exactly when that number is at least 2.
  For a slip in which no digit or comma comes before the displayed amount, the number
  read is the whole part of the amount; when it is at most 1 the slip is not blocking, as
  for \<^verbatim>\<open>$1.99\<close>.
\<close>

theorem wager_payout_fraction_discarded:
  "(\<forall>p. slip_payout text = Inr (Some p) \<longrightarrow>
      (\<exists>n::nat. p = Fin (of_nat n) \<and> (blocking text \<longleftrightarrow> 2 \<le> n)))
   \<and> ((\<forall>c\<in>set pre. \<not> digit_or_comma c) \<and> whole \<noteq> [] \<and> list_all is_digit whole
        \<and> contains (lower (pre @ whole @ CHR ''.'' # cents)) ''payout'' \<longrightarrow>
        slip_payout (pre @ whole @ CHR ''.'' # cents) = Inr (Some (Fin (of_int (int_of_digits whole))))
        \<and> (int_of_digits whole \<le> 1 \<longrightarrow>
             \<not> blocking (pre @ whole @ CHR ''.'' # cents)
             \<and> check_wagers (Inr [pre @ whole @ CHR ''.'' # cents]) = Inr False))"
proof (intro conjI allI impI)
  fix p assume "slip_payout text = Inr (Some p)"
  then obtain n :: nat where n: "slip_payout text = Inr (Some (Fin (of_nat n)))" and p: "p = Fin (of_nat n)"
    using slip_payout_cases [of "text"] by auto
  show "\<exists>n::nat. p = Fin (of_nat n) \<and> (blocking text \<longleftrightarrow> 2 \<le> n)"
    using blocking_nat [OF n] p by blast
next
  let ?t = "pre @ whole @ CHR ''.'' # cents"
  assume a: "(\<forall>c\<in>set pre. \<not> digit_or_comma c) \<and> whole \<noteq> [] \<and> list_all is_digit whole
        \<and> contains (lower ?t) ''payout''"
  then have s: "search_digits_commas ?t = Some whole"
    by (simp add: search_digits_commas_displayed)
  have f: "py_float whole = Inr (Fin (of_int (int_of_digits whole)))"
    using a by (simp add: py_float_digits)
  show sp: "slip_payout ?t = Inr (Some (Fin (of_int (int_of_digits whole))))"
    using a s f by (simp add: slip_payout_def remove_commas_id then_exc_def)
  have "0 \<le> int_of_digits whole"
    using a by (simp add: int_of_digits_nonneg)
  with sp have sp': "slip_payout ?t = Inr (Some (Fin (of_nat (nat (int_of_digits whole)))))"
    by simp
  assume le: "int_of_digits whole \<le> 1"
  show "\<not> blocking ?t"
    using blocking_nat [OF sp'] le by simp
  then show "check_wagers (Inr [?t]) = Inr False"
    using sp by (simp add: check_wagers_def blocking_def)
qed

theorem wager_payout_fraction_discarded_witness:
  "slip_payout ''Potential payout: $1.99'' = Inr (Some (Fin 1))
   \<and> \<not> blocking ''Potential payout: $1.99''
   \<and> check_wagers (Inr [''Potential payout: $1.99'']) = Inr False"
proof -
  have h: "(\<forall>c\<in>set ''Potential payout: $''. \<not> digit_or_comma c) \<and> ''1'' \<noteq> []
      \<and> list_all is_digit ''1''
      \<and> contains (lower (''Potential payout: $'' @ ''1'' @ CHR ''.'' # ''99'')) ''payout''"
    by code_simp
  have n: "int_of_digits ''1'' = 1" by code_simp
  show ?thesis
    using wager_payout_fraction_discarded
      [of "''Potential payout: $1.99''" "''Potential payout: $''" "''1''" "''99''"] h n
    by simp
qed

text \<open>
  The match is the first run of digits and commas of the whole text of the slip: a digit
  before the displayed amount is read in its place. A slip that displays \<^verbatim>\<open>$1.99\<close> after
  the words \<^verbatim>\<open>3 leg parlay\<close> is read as 3 and is blocking.
\<close>

theorem wager_payout_fraction_discarded_counterexample:
  "''3 leg parlay. Payout: $1.99'' = ''3 leg parlay. Payout: $'' @ ''1'' @ CHR ''.'' # ''99''
   \<and> slip_payout ''3 leg parlay. Payout: $1.99'' = Inr (Some (Fin 3))
   \<and> blocking ''3 leg parlay. Payout: $1.99''
   \<and> check_wagers (Inr [''3 leg parlay. Payout: $1.99'']) = Inr True"
  by code_simp

lemma slips_loop_Cons:
  "slips_loop (s # rest) =
     (case slip_payout s of
        Inl e \<Rightarrow> Inl e
      | Inr p \<Rightarrow> if blocking s then Inr True else slips_loop rest)"
  by (simp add: blocking_def split: sum.splits option.splits)

lemma slips_loop_returns:
  "slips_loop slips = Inr b \<Longrightarrow> b = list_ex blocking slips"
proof (induction slips)
  case Nil
  then show ?case by simp
next
  case (Cons s rest)
  show ?case
  proof (cases "slip_payout s")
    case (Inl e)
    with Cons.prems show ?thesis by (simp add: slips_loop_Cons del: slips_loop.simps)
  next
    case (Inr p)
    show ?thesis
    proof (cases "blocking s")
      case True
      with Inr Cons.prems show ?thesis by (simp add: slips_loop_Cons del: slips_loop.simps)
    next
      case False
      with Inr Cons.prems have "slips_loop rest = Inr b" by (simp add: slips_loop_Cons del: slips_loop.simps)
      then have "b = list_ex blocking rest" by (rule Cons.IH)
      with False show ?thesis by simp
    qed
  qed
qed

lemma slips_loop_total:
  "list_all (\<lambda>s. \<exists>p. slip_payout s = Inr p) slips \<Longrightarrow>
   slips_loop slips = Inr (list_ex blocking slips)"
proof (induction slips)
  case Nil
  then show ?case by simp
next
  case (Cons s rest)
  from Cons.prems obtain p where p: "slip_payout s = Inr p" by auto
  from Cons.prems have "slips_loop rest = Inr (list_ex blocking rest)"
    by (simp add: Cons.IH)
  with p show ?case by (simp add: slips_loop_Cons del: slips_loop.simps)
qed

lemma check_wagers_slips: "check_wagers (Inr slips) = slips_loop slips"
  by (cases slips) (simp_all add: check_wagers_def)

lemma check_wagers_blocking_slip: "check_wagers (Inr [''Potential payout: $50.00'']) = Inr True"
  by code_simp

lemma check_wagers_low_slip: "check_wagers (Inr [''Potential payout: $1.50'']) = Inr False"
  by code_simp

lemma check_open_wagers_first_attempt:
  "check_wagers (pages 0) = Inr b \<Longrightarrow>
   check_open_wagers pages = \<lparr>outcome = Inr (Some b), calls = 1, sleeps = []\<rparr>"
  by (simp add: check_open_wagers_def retry_default_first)

text \<open>
  C7. Two slips are enumerated, the same at every attempt: the first shows a payout of
  \<^verbatim>\<open>$2.00\<close> after a comma in its text, the second a payout of \<^verbatim>\<open>$50.00\<close>, which is
  blocking. In the first slip the match of \<^verbatim>\<open>[\d,]+\<close> is the comma alone, \<^verbatim>\<open>float\<close>
  raises \<^verbatim>\<open>ValueError\<close> on the empty text, and the operation raises after three attempts
  instead of returning true.
\<close>

theorem check_open_wagers_comma_raises:
  "check_open_wagers
     (\<lambda>attempt. Inr [''Parlay, 2 legs. Potential payout: $2.00'', ''Potential payout: $50.00'']) =
     \<lparr>outcome = Inl float_error, calls = 3, sleeps = [2, 4]\<rparr>
   \<and> blocking ''Potential payout: $50.00''"
proof -
  have c: "check_wagers (Inr [''Parlay, 2 legs. Potential payout: $2.00'', ''Potential payout: $50.00''])
      = Inl float_error"
    by code_simp
  have b: "blocking ''Potential payout: $50.00''"
    by code_simp
  have "check_open_wagers
     (\<lambda>attempt. Inr [''Parlay, 2 legs. Potential payout: $2.00'', ''Potential payout: $50.00'']) =
     \<lparr>outcome = Inl float_error, calls = 3, sleeps = [2, 4]\<rparr>"
    by (simp only: check_open_wagers_def retry_default_same c sum.case)
  with b show ?thesis by blast
qed

section \<open>Properties of the betting strategy\<close>

lemma py_lt_le_trans: "py_lt a b \<Longrightarrow> py_le b c \<Longrightarrow> py_le a c"
  by (cases a; cases b; cases c) simp_all

lemma parlay_loop_prefix:
  "parlay_loop read mn mx cs sel cur = Inr r \<Longrightarrow>
   \<exists>added. parlay_selections r = sel @ added \<and> added = take (length added) cs"
proof (induction cs arbitrary: sel cur)
  case Nil
  then show ?case by auto
next
  case (Cons g rest)
  show ?case
  proof (cases "py_ge cur mx")
    case True
    with Cons.prems show ?thesis by auto
  next
    case False
    with Cons.prems obtain p where c: "click (element g) = None" and p: "read (Suc (length sel)) = Inr p"
      by (auto split: option.splits sum.splits)
    show ?thesis
    proof (cases "py_le mn p \<and> py_le p mx")
      case True
      with False c p Cons.prems have "parlay_selections r = sel @ [g]" by auto
      then have "parlay_selections r = sel @ [g] \<and> [g] = take (length [g]) (g # rest)" by simp
      then show ?thesis by blast
    next
      case nb: False
      with False c p Cons.prems have "parlay_loop read mn mx rest (sel @ [g]) p = Inr r" by auto
      from Cons.IH [OF this] obtain added where
        a: "parlay_selections r = (sel @ [g]) @ added" "added = take (length added) rest" by blast
      then have "parlay_selections r = sel @ (g # added)
          \<and> g # added = take (length (g # added)) (g # rest)" by simp
      then show ?thesis by blast
    qed
  qed
qed

lemma parlay_loop_length:
  "parlay_loop read mn mx cs sel cur = Inr r \<Longrightarrow>
   length sel \<le> length (parlay_selections r) \<and>
   (length (parlay_selections r) = length sel \<longrightarrow> parlay_selections r = sel)"
  by (drule parlay_loop_prefix) auto

lemma parlay_loop_placed:
  "parlay_loop read mn mx cs sel cur = Inr r \<Longrightarrow> placed r = py_ge (current_payout r) mn"
proof (induction cs arbitrary: sel cur)
  case Nil
  then show ?case by auto
next
  case (Cons g rest)
  show ?case
  proof (cases "py_ge cur mx")
    case True
    with Cons.prems show ?thesis by auto
  next
    case False
    with Cons.prems obtain p where c: "click (element g) = None" and p: "read (Suc (length sel)) = Inr p"
      by (auto split: option.splits sum.splits)
    show ?thesis
    proof (cases "py_le mn p \<and> py_le p mx")
      case True
      with False c p Cons.prems show ?thesis by (auto simp: py_ge_def)
    next
      case nb: False
      with False c p Cons.prems have "parlay_loop read mn mx rest (sel @ [g]) p = Inr r" by auto
      then show ?thesis by (rule Cons.IH)
    qed
  qed
qed

lemma parlay_loop_Cons_cases:
  assumes "parlay_loop read mn mx (g # rest) sel cur = Inr r"
  obtains
    (stop) "py_ge cur mx"
      "r = \<lparr>placed = py_ge cur mn, parlay_selections = sel, current_payout = cur\<rparr>"
  | (hit) p where "\<not> py_ge cur mx" "read (Suc (length sel)) = Inr p"
      "py_le mn p \<and> py_le p mx"
      "r = \<lparr>placed = True, parlay_selections = sel @ [g], current_payout = p\<rparr>"
  | (more) p where "\<not> py_ge cur mx" "read (Suc (length sel)) = Inr p"
      "\<not> (py_le mn p \<and> py_le p mx)"
      "parlay_loop read mn mx rest (sel @ [g]) p = Inr r"
  using assms by (auto split: if_splits option.splits sum.splits)

lemma parlay_loop_payout:
  "parlay_loop read mn mx cs sel cur = Inr r \<Longrightarrow>
   (parlay_selections r = sel \<longrightarrow> current_payout r = cur) \<and>
   (length sel < length (parlay_selections r) \<longrightarrow>
      read (length (parlay_selections r)) = Inr (current_payout r) \<and> \<not> py_ge cur mx)"
proof (induction cs arbitrary: sel cur)
  case Nil
  then show ?case by auto
next
  case (Cons g rest)
  from Cons.prems show ?case
  proof (cases rule: parlay_loop_Cons_cases)
    case stop
    then show ?thesis by simp
  next
    case (hit p)
    then show ?thesis by simp
  next
    case (more p)
    note ih = Cons.IH [OF more(4)]
    note len = parlay_loop_length [OF more(4)]
    show ?thesis
    proof (cases "length (parlay_selections r) = length (sel @ [g])")
      case True
      with len have "parlay_selections r = sel @ [g]" by blast
      with ih more show ?thesis by simp
    next
      case False
      with len have "length (sel @ [g]) < length (parlay_selections r)" by simp
      with ih more show ?thesis by auto
    qed
  qed
qed

lemma parlay_loop_earlier:
  "parlay_loop read mn mx cs sel cur = Inr r \<Longrightarrow>
   length sel < k \<Longrightarrow> k < length (parlay_selections r) \<Longrightarrow>
   \<exists>p. read k = Inr p \<and> \<not> (py_le mn p \<and> py_le p mx) \<and> \<not> py_ge p mx"
proof (induction cs arbitrary: sel cur)
  case Nil
  then show ?case by auto
next
  case (Cons g rest)
  from Cons.prems(1) show ?case
  proof (cases rule: parlay_loop_Cons_cases)
    case stop
    with Cons.prems show ?thesis by simp
  next
    case (hit p)
    with Cons.prems show ?thesis by simp
  next
    case (more p)
    show ?thesis
    proof (cases "k = Suc (length sel)")
      case True
      with Cons.prems(3) have "length (sel @ [g]) < length (parlay_selections r)" by simp
      with parlay_loop_payout [OF more(4)] have "\<not> py_ge p mx" by blast
      with more True show ?thesis by simp
    next
      case False
      with Cons.prems(2) have "length (sel @ [g]) < k" by simp
      from Cons.IH [OF more(4) this Cons.prems(3)] show ?thesis .
    qed
  qed
qed

lemma parlay_loop_stop:
  "parlay_loop read mn mx cs sel cur = Inr r \<Longrightarrow>
   length (parlay_selections r) < length sel + length cs \<Longrightarrow>
   (length sel < length (parlay_selections r) \<and>
      py_le mn (current_payout r) \<and> py_le (current_payout r) mx)
   \<or> py_ge (current_payout r) mx"
proof (induction cs arbitrary: sel cur)
  case Nil
  then show ?case using parlay_loop_length [OF Nil.prems(1)] by simp
next
  case (Cons g rest)
  from Cons.prems(1) show ?case
  proof (cases rule: parlay_loop_Cons_cases)
    case stop
    then show ?thesis by simp
  next
    case (hit p)
    then show ?thesis by simp
  next
    case (more p)
    from Cons.prems(2) have "length (parlay_selections r) < length (sel @ [g]) + length rest"
      by simp
    from Cons.IH [OF more(4) this] show ?thesis by auto
  qed
qed

lemma parlay_loop_total:
  "\<forall>g\<in>set cs. click (element g) = None \<Longrightarrow> \<forall>k. \<exists>p. read k = Inr p \<Longrightarrow>
   \<exists>r. parlay_loop read mn mx cs sel cur = Inr r"
proof (induction cs arbitrary: sel cur)
  case Nil
  then show ?case by simp
next
  case (Cons g rest)
  from Cons.prems(2) obtain p where p: "read (Suc (length sel)) = Inr p" by blast
  from Cons.prems(1) have c: "click (element g) = None" by simp
  from Cons.prems have "\<exists>r. parlay_loop read mn mx rest (sel @ [g]) p = Inr r"
    by (intro Cons.IH) simp_all
  with p c show ?case by simp
qed

lemma execute_strategy_no_games:
  "games page = Inr [] \<Longrightarrow> execute_strategy mn mx page = Inr False"
  by (simp add: execute_strategy_def)

lemma execute_strategy_no_safe:
  "games page = Inr gs \<Longrightarrow> games_loop gs [] = [] \<Longrightarrow> execute_strategy mn mx page = Inr False"
  by (simp add: execute_strategy_def)

lemma execute_strategy_parlay:
  "games page = Inr gs \<Longrightarrow> games_loop gs [] \<noteq> [] \<Longrightarrow>
   execute_strategy mn mx page =
     (case build_parlay (\<lambda>n. get_current_payout (bet_slip page n)) mn mx (games_loop gs []) of
        Inl e \<Rightarrow> Inl e
      | Inr r \<Rightarrow> Inr (placed r))"
proof -
  assume g: "games page = Inr gs" and s: "games_loop gs [] \<noteq> []"
  then have "gs \<noteq> []" by auto
  with g s show ?thesis
    by (simp add: execute_strategy_def then_exc_def Let_def split: sum.splits)
qed

lemma execute_betting_strategy_first:
  "execute_strategy mn mx (pages 0) = Inr b \<Longrightarrow>
   execute_betting_strategy mn mx pages = \<lparr>outcome = Inr (Some b), calls = 1, sleeps = []\<rparr>"
  by (simp add: execute_betting_strategy_def retry_default_first)

text \<open>
  C3. When the accumulation loop returns: the selections are a prefix of the candidates, in
  their order; the payout kept is the one read after the last click (1.0 when nothing was
  clicked); every payout read before the last one was outside the band and below the
  maximum, so the loop returns at the first payout inside the band and clicks nothing once
  a payout has reached the maximum; the boolean returned is whether the last payout is at
  least the minimum, which is true after an overshoot when the minimum is below the
  maximum; and the loop stops before the last candidate only inside the band or at or above
  the maximum. The loop returns whenever the clicks and the reads do. With no game card, or
  no candidate with safe odds, the strategy returns false; otherwise it runs the loop on
  the candidates the filter kept, with the payouts read from the bet slip, and returns the
  loop's boolean or raises the loop's exception. The public operation returns what its
  first attempt returns.
\<close>

theorem parlay_accumulation:
  "(build_parlay read mn mx safe_games = Inr r \<longrightarrow>
      parlay_selections r = take (length (parlay_selections r)) safe_games
      \<and> (parlay_selections r = [] \<longrightarrow> current_payout r = Fin 1)
      \<and> (parlay_selections r \<noteq> [] \<longrightarrow>
            read (length (parlay_selections r)) = Inr (current_payout r) \<and> \<not> py_ge (Fin 1) mx)
      \<and> (\<forall>k. 0 < k \<and> k < length (parlay_selections r) \<longrightarrow>
            (\<exists>p. read k = Inr p \<and> \<not> (py_le mn p \<and> py_le p mx) \<and> \<not> py_ge p mx))
      \<and> placed r = py_ge (current_payout r) mn
      \<and> (length (parlay_selections r) < length safe_games \<longrightarrow>
            (parlay_selections r \<noteq> [] \<and> py_le mn (current_payout r) \<and> py_le (current_payout r) mx)
            \<or> py_ge (current_payout r) mx)
      \<and> (py_lt mn mx \<and> py_ge (current_payout r) mx \<longrightarrow> placed r))
   \<and> ((\<forall>g\<in>set safe_games. click (element g) = None) \<and> (\<forall>k. \<exists>p. read k = Inr p) \<longrightarrow>
        (\<exists>r. build_parlay read mn mx safe_games = Inr r))
   \<and> (games page = Inr [] \<longrightarrow> execute_strategy mn mx page = Inr False)
   \<and> (games page = Inr gs \<and> games_loop gs [] = [] \<longrightarrow> execute_strategy mn mx page = Inr False)
   \<and> (games page = Inr gs \<and> games_loop gs [] \<noteq> [] \<longrightarrow>
        execute_strategy mn mx page =
          (case build_parlay (\<lambda>n. get_current_payout (bet_slip page n)) mn mx
                  (games_loop gs []) of
             Inl e \<Rightarrow> Inl e
           | Inr r \<Rightarrow> Inr (placed r)))
   \<and> (execute_strategy mn mx (pages 0) = Inr b \<longrightarrow>
        execute_betting_strategy mn mx pages =
          \<lparr>outcome = Inr (Some b), calls = 1, sleeps = []\<rparr>)"
proof (intro conjI impI allI)
  assume b: "build_parlay read mn mx safe_games = Inr r"
  then have l: "parlay_loop read mn mx safe_games [] (Fin 1) = Inr r"
    by (simp add: build_parlay_def)
  from parlay_loop_prefix [OF l]
  show "parlay_selections r = take (length (parlay_selections r)) safe_games"
    by auto
  show pl: "placed r = py_ge (current_payout r) mn"
    using l by (rule parlay_loop_placed)
  {
    assume "parlay_selections r = []"
    with parlay_loop_payout [OF l] show "current_payout r = Fin 1" by simp
  }
  {
    assume "parlay_selections r \<noteq> []"
    with parlay_loop_payout [OF l]
    show "read (length (parlay_selections r)) = Inr (current_payout r)"
      and "\<not> py_ge (Fin 1) mx" by simp_all
  }
  {
    fix k assume "0 < k \<and> k < length (parlay_selections r)"
    then show "\<exists>p. read k = Inr p \<and> \<not> (py_le mn p \<and> py_le p mx) \<and> \<not> py_ge p mx"
      using parlay_loop_earlier [OF l, of k] by simp
  }
  {
    assume "length (parlay_selections r) < length safe_games"
    then show "(parlay_selections r \<noteq> [] \<and> py_le mn (current_payout r) \<and> py_le (current_payout r) mx)
            \<or> py_ge (current_payout r) mx"
      using parlay_loop_stop [OF l] by auto
  }
  {
    assume "py_lt mn mx \<and> py_ge (current_payout r) mx"
    then have "py_le mn (current_payout r)"
      using py_lt_le_trans [of mn mx "current_payout r"] by (simp add: py_ge_def)
    then show "placed r" using pl by (simp add: py_ge_def)
  }
next
  assume "(\<forall>g\<in>set safe_games. click (element g) = None) \<and> (\<forall>k. \<exists>p. read k = Inr p)"
  then show "\<exists>r. build_parlay read mn mx safe_games = Inr r"
    unfolding build_parlay_def by (intro parlay_loop_total) simp_all
next
  assume "games page = Inr []"
  then show "execute_strategy mn mx page = Inr False"
    by (rule execute_strategy_no_games)
next
  assume "games page = Inr gs \<and> games_loop gs [] = []"
  then show "execute_strategy mn mx page = Inr False"
    by (simp add: execute_strategy_no_safe)
next
  assume "games page = Inr gs \<and> games_loop gs [] \<noteq> []"
  then show "execute_strategy mn mx page =
          (case build_parlay (\<lambda>n. get_current_payout (bet_slip page n)) mn mx
                  (games_loop gs []) of
             Inl e \<Rightarrow> Inl e
           | Inr r \<Rightarrow> Inr (placed r))"
    by (simp add: execute_strategy_parlay)
next
  assume "execute_strategy mn mx (pages 0) = Inr b"
  then show "execute_betting_strategy mn mx pages =
          \<lparr>outcome = Inr (Some b), calls = 1, sleeps = []\<rparr>"
    by (rule execute_betting_strategy_first)
qed

theorem parlay_accumulation_witness:
  "execute_strategy (Fin 50) (Fin 100)
     \<lparr>games = Inr [Inr [\<lparr>label = Some ''-150'', click = None\<rparr>,
                        \<lparr>label = Some ''+130'', click = None\<rparr>,
                        \<lparr>label = Some ''-200'', click = None\<rparr>]],
      bet_slip = (\<lambda>n. if n = 1 then Inr (Some ''Payout: $10.00'')
                      else Inr (Some ''Payout: $60.00''))\<rparr> = Inr True
   \<and> execute_betting_strategy (Fin 50) (Fin 100)
       (\<lambda>attempt.
          \<lparr>games = Inr [Inr [\<lparr>label = Some ''-150'', click = None\<rparr>,
                             \<lparr>label = Some ''+130'', click = None\<rparr>,
                             \<lparr>label = Some ''-200'', click = None\<rparr>]],
           bet_slip = (\<lambda>n. if n = 1 then Inr (Some ''Payout: $10.00'')
                           else Inr (Some ''Payout: $60.00''))\<rparr>)
     = \<lparr>outcome = Inr (Some True), calls = 1, sleeps = []\<rparr>
   \<and> build_parlay
       (\<lambda>n. get_current_payout
          (if n = 1 then Inr (Some ''Payout: $10.00'') else Inr (Some ''Payout: $60.00'')))
       (Fin 50) (Fin 100)
       [\<lparr>element = \<lparr>label = Some ''-150'', click = None\<rparr>, odds = Fin (5 / 3)\<rparr>,
        \<lparr>element = \<lparr>label = Some ''+130'', click = None\<rparr>, odds = Fin (23 / 10)\<rparr>,
        \<lparr>element = \<lparr>label = Some ''-200'', click = None\<rparr>, odds = Fin (3 / 2)\<rparr>]
     = Inr \<lparr>placed = True,
            parlay_selections =
              [\<lparr>element = \<lparr>label = Some ''-150'', click = None\<rparr>, odds = Fin (5 / 3)\<rparr>,
               \<lparr>element = \<lparr>label = Some ''+130'', click = None\<rparr>, odds = Fin (23 / 10)\<rparr>],
            current_payout = Fin 60\<rparr>
   \<and> execute_strategy (Fin 50) (Fin 100) \<lparr>games = Inr [], bet_slip = \<lambda>n. Inr None\<rparr> = Inr False"
proof -
  let ?slip = "\<lambda>n::nat. if n = 1 then Inr (Some ''Payout: $10.00'')
      else (Inr (Some ''Payout: $60.00'') :: py_exception + string option)"
  let ?gs = "[Inr [\<lparr>label = Some ''-150'', click = None\<rparr>,
                   \<lparr>label = Some ''+130'', click = None\<rparr>,
                   \<lparr>label = Some ''-200'', click = None\<rparr>]] :: game list"
  let ?page = "\<lparr>games = Inr ?gs, bet_slip = ?slip\<rparr>"
  let ?c1 = "\<lparr>element = \<lparr>label = Some ''-150'', click = None\<rparr>, odds = Fin (5 / 3)\<rparr>"
  let ?c2 = "\<lparr>element = \<lparr>label = Some ''+130'', click = None\<rparr>, odds = Fin (23 / 10)\<rparr>"
  let ?c3 = "\<lparr>element = \<lparr>label = Some ''-200'', click = None\<rparr>, odds = Fin (3 / 2)\<rparr>"
  let ?r = "\<lparr>placed = True, parlay_selections = [?c1, ?c2], current_payout = Fin 60\<rparr>"
  let ?read = "\<lambda>n. get_current_payout (?slip n)"
  let ?empty = "\<lparr>games = Inr [], bet_slip = \<lambda>n. Inr None\<rparr> :: sports_page"
  have safe: "games_loop ?gs [] = [?c1, ?c2, ?c3]"
    by code_simp
  have r10: "get_current_payout (Inr (Some ''Payout: $10.00'')) = Inr (Fin 10)"
    by code_simp
  have r60: "get_current_payout (Inr (Some ''Payout: $60.00'')) = Inr (Fin 60)"
    by code_simp
  have b: "build_parlay ?read (Fin 50) (Fin 100) [?c1, ?c2, ?c3] = Inr ?r"
    by (simp add: build_parlay_def py_ge_def r10 r60)
  have bp: "build_parlay (\<lambda>n. get_current_payout (bet_slip ?page n)) (Fin 50) (Fin 100)
      (games_loop ?gs []) = Inr ?r"
    unfolding safe using b by simp
  have g: "games ?page = Inr ?gs \<and> games_loop ?gs [] \<noteq> []"
    unfolding safe by simp
  note t = parlay_accumulation
    [of ?read "Fin 50" "Fin 100" "[?c1, ?c2, ?c3]" ?r ?page ?gs "\<lambda>attempt. ?page" True]
  from t g have "execute_strategy (Fin 50) (Fin 100) ?page =
      (case build_parlay (\<lambda>n. get_current_payout (bet_slip ?page n)) (Fin 50) (Fin 100)
              (games_loop ?gs []) of
         Inl e \<Rightarrow> Inl e
       | Inr r \<Rightarrow> Inr (placed r))"
    by blast
  then have e: "execute_strategy (Fin 50) (Fin 100) ?page = Inr True"
    unfolding bp by simp
  with t have p: "execute_betting_strategy (Fin 50) (Fin 100) (\<lambda>attempt. ?page) =
      \<lparr>outcome = Inr (Some True), calls = 1, sleeps = []\<rparr>"
    by blast
  have "games ?empty = Inr []"
    by simp
  with parlay_accumulation
    [of ?read "Fin 50" "Fin 100" "[?c1, ?c2, ?c3]" ?r ?empty "[]" "\<lambda>attempt. ?empty" False]
  have n: "execute_strategy (Fin 50) (Fin 100) ?empty = Inr False"
    by blast
  from e p b n show ?thesis
    by blast
qed

text \<open>
  C1. The filter compares the decimal multiplier, not the American odds, with -250 and 200:
  a proposal labelled \<^verbatim>\<open>+500\<close> has the multiplier 6, passes the comparison and is appended
  to the candidates.
\<close>

theorem safe_filter_keeps_plus_500:
  "convert_odds_to_decimal ''+500'' = Inr (Fin 6)
   \<and> safe_odds (Fin 6)
   \<and> games_loop [Inr [\<lparr>label = Some ''+500'', click = None\<rparr>]] [] =
       [\<lparr>element = \<lparr>label = Some ''+500'', click = None\<rparr>, odds = Fin 6\<rparr>]"
proof -
  have c: "convert_odds_to_decimal (strip ''+500'') = Inr (Fin 6)"
    "convert_odds_to_decimal ''+500'' = Inr (Fin 6)"
    by code_simp+
  have s: "safe_odds (Fin 6)"
    by (simp add: safe_odds_def)
  from c s show ?thesis by simp
qed

section \<open>Properties of the workflow control\<close>

lemma disable_workflow_returns: "\<exists>b. disable_workflow self api = Inr b"
  by (cases "disable_workflow_try self api") (auto simp: disable_workflow_def)

lemma disable_workflow_True:
  "disable_workflow self api = Inr True \<longleftrightarrow> disable_workflow_try self api = Inr True"
  by (cases "disable_workflow_try self api") (simp_all add: disable_workflow_def)

lemma find_workflow_Some:
  "find_workflow path items = Inr (Some w) \<Longrightarrow>
   w \<in> set items \<and> (\<exists>d. w = JObj d \<and> dict_get d ''path'' JNull = JStr path)"
proof (induction items)
  case Nil
  then show ?case by simp
next
  case (Cons x xs)
  then show ?case
    by (cases x) (auto split: if_splits)
qed

lemma put_disable_True:
  "put_disable self api d = Inr True \<Longrightarrow>
   \<exists>workflow_id r. map_of d ''id'' = Some workflow_id
     \<and> requests_put api (repository_url self) workflow_id (headers self) = Inr r
     \<and> raise_for_status r = None"
  by (auto simp: put_disable_def then_exc_def split: option.splits sum.splits)

lemma get_workflows_Inr:
  "get_workflows self api = Inr ws \<Longrightarrow>
   \<exists>r d. requests_get api (workflows_url self) (headers self) = Inr r
     \<and> raise_for_status r = None \<and> json_body r = Inr (JObj d)
     \<and> ws = dict_get d ''workflows'' (JArr [])"
  by (auto simp: get_workflows_def then_exc_def split: option.splits sum.splits json.splits)

lemma disable_workflow_try_True:
  assumes "disable_workflow_try self api = Inr True"
  shows "\<exists>ws items d. get_workflows self api = Inr ws \<and> iterate ws = Inr items
     \<and> find_workflow (workflow_path self) items = Inr (Some (JObj d))
     \<and> put_disable self api d = Inr True"
proof -
  from assms obtain ws where ws: "get_workflows self api = Inr ws"
    by (cases "get_workflows self api") (simp_all add: disable_workflow_try_def then_exc_def)
  from assms ws obtain items where items: "iterate ws = Inr items"
    by (cases "iterate ws") (simp_all add: disable_workflow_try_def then_exc_def)
  from assms ws items obtain t where t: "find_workflow (workflow_path self) items = Inr t"
    by (cases "find_workflow (workflow_path self) items")
      (simp_all add: disable_workflow_try_def then_exc_def)
  from assms ws items t obtain d where "t = Some (JObj d)" "put_disable self api d = Inr True"
    by (auto simp: disable_workflow_try_def then_exc_def split: option.splits json.splits if_splits)
  with ws items t show ?thesis by blast
qed

text \<open>
  C10. \<^verbatim>\<open>disable_workflow\<close> always returns a boolean. It returns false when the listing
  request raises or answers with an error status, when no listed workflow has the path
  \<^verbatim>\<open>.github/workflows/main.yml\<close>, and when the disable request raises or answers with an
  error status whatever the workflow. It returns true only when the listing request and
  the disable request both succeed and the listing holds a workflow with the path.
\<close>

theorem disable_workflow_never_raises:
  "(\<exists>b. disable_workflow self api = Inr b)
   \<and> (requests_get api (workflows_url self) (headers self) = Inl e \<longrightarrow>
        disable_workflow self api = Inr False)
   \<and> (requests_get api (workflows_url self) (headers self) = Inr r
        \<and> raise_for_status r \<noteq> None \<longrightarrow> disable_workflow self api = Inr False)
   \<and> (requests_get api (workflows_url self) (headers self) = Inr r
        \<and> json_body r = Inr (JObj doc) \<and> dict_get doc ''workflows'' (JArr []) = JArr workflows
        \<and> (\<forall>w\<in>set workflows. \<forall>d. w = JObj d \<longrightarrow>
              dict_get d ''path'' JNull \<noteq> JStr ''.github/workflows/main.yml'')
        \<and> workflow_filename self = ''main.yml'' \<longrightarrow>
        disable_workflow self api = Inr False)
   \<and> ((\<forall>workflow_id.
          case requests_put api (repository_url self) workflow_id (headers self) of
            Inl x \<Rightarrow> True
          | Inr r2 \<Rightarrow> raise_for_status r2 \<noteq> None) \<longrightarrow>
        disable_workflow self api = Inr False)
   \<and> (disable_workflow self api = Inr True \<longrightarrow>
        (\<exists>r1 doc1 items d workflow_id r2.
           requests_get api (workflows_url self) (headers self) = Inr r1
           \<and> raise_for_status r1 = None
           \<and> json_body r1 = Inr (JObj doc1)
           \<and> iterate (dict_get doc1 ''workflows'' (JArr [])) = Inr items
           \<and> JObj d \<in> set items
           \<and> dict_get d ''path'' JNull = JStr (workflow_path self)
           \<and> map_of d ''id'' = Some workflow_id
           \<and> requests_put api (repository_url self) workflow_id (headers self) = Inr r2
           \<and> raise_for_status r2 = None))"
proof (intro conjI impI)
  show "\<exists>b. disable_workflow self api = Inr b"
    by (rule disable_workflow_returns)
  note ret = disable_workflow_returns [of self api]
  have not_true: "disable_workflow self api = Inr False"
    if "disable_workflow_try self api \<noteq> Inr True"
    using that ret disable_workflow_True [of self api] by (metis (full_types))
  {
    assume "requests_get api (workflows_url self) (headers self) = Inl e"
    then have "get_workflows self api = Inl e"
      by (simp add: get_workflows_def then_exc_def)
    then have "disable_workflow_try self api = Inl e"
      by (simp add: disable_workflow_try_def then_exc_def)
    then show "disable_workflow self api = Inr False"
      by (simp add: disable_workflow_def)
  }
  {
    assume "requests_get api (workflows_url self) (headers self) = Inr r
        \<and> raise_for_status r \<noteq> None"
    then obtain x where "get_workflows self api = Inl x"
      by (auto simp: get_workflows_def then_exc_def)
    then have "disable_workflow_try self api = Inl x"
      by (simp add: disable_workflow_try_def then_exc_def)
    then show "disable_workflow self api = Inr False"
      by (simp add: disable_workflow_def)
  }
  {
    assume a: "requests_get api (workflows_url self) (headers self) = Inr r
        \<and> json_body r = Inr (JObj doc) \<and> dict_get doc ''workflows'' (JArr []) = JArr workflows
        \<and> (\<forall>w\<in>set workflows. \<forall>d. w = JObj d \<longrightarrow>
              dict_get d ''path'' JNull \<noteq> JStr ''.github/workflows/main.yml'')
        \<and> workflow_filename self = ''main.yml''"
    have "disable_workflow_try self api \<noteq> Inr True"
    proof
      assume "disable_workflow_try self api = Inr True"
      from disable_workflow_try_True [OF this] obtain ws items d where
        ws: "get_workflows self api = Inr ws" and it: "iterate ws = Inr items"
        and f: "find_workflow (workflow_path self) items = Inr (Some (JObj d))"
        by blast
      from get_workflows_Inr [OF ws] a have "ws = JArr workflows" by auto
      with it have "items = workflows" by (simp add: iterate_def)
      with find_workflow_Some [OF f] a show False
        by (auto simp: workflow_path_def)
    qed
    then show "disable_workflow self api = Inr False"
      by (rule not_true)
  }
  {
    assume a: "\<forall>workflow_id.
          case requests_put api (repository_url self) workflow_id (headers self) of
            Inl x \<Rightarrow> True
          | Inr r2 \<Rightarrow> raise_for_status r2 \<noteq> None"
    have "disable_workflow_try self api \<noteq> Inr True"
    proof
      assume "disable_workflow_try self api = Inr True"
      from disable_workflow_try_True [OF this] obtain d where "put_disable self api d = Inr True"
        by blast
      from put_disable_True [OF this] obtain workflow_id r2 where
        "requests_put api (repository_url self) workflow_id (headers self) = Inr r2"
        "raise_for_status r2 = None" by blast
      with a [rule_format, of workflow_id] show False by simp
    qed
    then show "disable_workflow self api = Inr False"
      by (rule not_true)
  }
  {
    assume "disable_workflow self api = Inr True"
    then have "disable_workflow_try self api = Inr True"
      by (simp add: disable_workflow_True)
    from disable_workflow_try_True [OF this] obtain ws items d where
      ws: "get_workflows self api = Inr ws" and it: "iterate ws = Inr items"
      and f: "find_workflow (workflow_path self) items = Inr (Some (JObj d))"
      and p: "put_disable self api d = Inr True"
      by blast
    from get_workflows_Inr [OF ws] obtain r1 doc1 where
      g: "requests_get api (workflows_url self) (headers self) = Inr r1"
      "raise_for_status r1 = None" "json_body r1 = Inr (JObj doc1)"
      "ws = dict_get doc1 ''workflows'' (JArr [])" by blast
    from find_workflow_Some [OF f] have
      m: "JObj d \<in> set items" "dict_get d ''path'' JNull = JStr (workflow_path self)" by auto
    from put_disable_True [OF p] obtain workflow_id r2 where
      q: "map_of d ''id'' = Some workflow_id"
      "requests_put api (repository_url self) workflow_id (headers self) = Inr r2"
      "raise_for_status r2 = None" by blast
    from g it m q show "\<exists>r1 doc1 items d workflow_id r2.
           requests_get api (workflows_url self) (headers self) = Inr r1
           \<and> raise_for_status r1 = None
           \<and> json_body r1 = Inr (JObj doc1)
           \<and> iterate (dict_get doc1 ''workflows'' (JArr [])) = Inr items
           \<and> JObj d \<in> set items
           \<and> dict_get d ''path'' JNull = JStr (workflow_path self)
           \<and> map_of d ''id'' = Some workflow_id
           \<and> requests_put api (repository_url self) workflow_id (headers self) = Inr r2
           \<and> raise_for_status r2 = None"
      by blast
  }
qed

theorem disable_workflow_never_raises_witness:
  "disable_workflow
     \<lparr>github_token = ''test_github_token'', github_repository = ''test/test-repo'',
      workflow_filename = ''main.yml''\<rparr>
     \<lparr>requests_get = (\<lambda>url hs. Inl (RequestException ''Network error'')),
      requests_put = (\<lambda>url workflow_id hs. Inr \<lparr>status_code = 204, json_body = Inr JNull\<rparr>)\<rparr>
   = Inr False
   \<and> disable_workflow
     \<lparr>github_token = ''test_github_token'', github_repository = ''test/test-repo'',
      workflow_filename = ''main.yml''\<rparr>
     \<lparr>requests_get = (\<lambda>url hs. Inr \<lparr>status_code = 404, json_body = Inr JNull\<rparr>),
      requests_put = (\<lambda>url workflow_id hs. Inr \<lparr>status_code = 204, json_body = Inr JNull\<rparr>)\<rparr>
   = Inr False"
proof (intro conjI)
  let ?self = "\<lparr>github_token = ''test_github_token'', github_repository = ''test/test-repo'',
      workflow_filename = ''main.yml''\<rparr>"
  let ?put = "\<lambda>(url::string) (workflow_id::json) (hs::(string \<times> string) list).
      Inr \<lparr>status_code = 204, json_body = Inr JNull\<rparr> :: py_exception + response"
  let ?down = "\<lparr>requests_get = (\<lambda>url hs. Inl (RequestException ''Network error'')),
      requests_put = ?put\<rparr>"
  let ?missing = "\<lparr>requests_get = (\<lambda>url hs. Inr \<lparr>status_code = 404, json_body = Inr JNull\<rparr>),
      requests_put = ?put\<rparr>"
  have g: "requests_get ?down (workflows_url ?self) (headers ?self)
      = Inl (RequestException ''Network error'')"
    by simp
  from disable_workflow_never_raises
      [of ?self ?down "RequestException ''Network error''"
          "\<lparr>status_code = 404, json_body = Inr JNull\<rparr>" "[]" "[]"] g
  show "disable_workflow ?self ?down = Inr False"
    by blast
  have h: "requests_get ?missing (workflows_url ?self) (headers ?self)
      = Inr \<lparr>status_code = 404, json_body = Inr JNull\<rparr>
    \<and> raise_for_status \<lparr>status_code = 404, json_body = Inr JNull\<rparr> \<noteq> None"
    by (simp add: raise_for_status_def)
  from disable_workflow_never_raises
      [of ?self ?missing "RequestException []" "\<lparr>status_code = 404, json_body = Inr JNull\<rparr>"
          "[]" "[]"] h
  show "disable_workflow ?self ?missing = Inr False"
    by blast
qed

text \<open>The listing of the tests, answered with success, disables the workflow.\<close>

lemma disable_workflow_sample:
  "disable_workflow
     \<lparr>github_token = ''test_github_token'', github_repository = ''test/test-repo'',
      workflow_filename = ''main.yml''\<rparr>
     \<lparr>requests_get = (\<lambda>url hs. Inr \<lparr>status_code = 200, json_body = Inr (JObj
        [(''workflows'', JArr [JObj [(''id'', JNum 12345),
                                     (''path'', JStr ''.github/workflows/main.yml''),
                                     (''state'', JStr ''active'')]])])\<rparr>),
      requests_put = (\<lambda>url workflow_id hs. Inr \<lparr>status_code = 204, json_body = Inr JNull\<rparr>)\<rparr>
   = Inr True"
  by (simp add: disable_workflow_def disable_workflow_try_def get_workflows_def
      raise_for_status_def then_exc_def dict_get_def iterate_def workflow_path_def
      put_disable_def)

section \<open>Properties of the construction\<close>

lemma default_latitude: "py_float ''40.7128'' = Inr (Fin (50891 / 1250))"
  by code_simp

lemma default_longitude: "py_float ''-74.0060'' = Inr (Fin (- (37003 / 500)))"
  by code_simp

lemma FliffAutomator_init_defaults:
  assumes "env ''GEOLOCATION_LATITUDE'' = None" "env ''GEOLOCATION_LONGITUDE'' = None"
  shows "FliffAutomator_init env =
     Inr \<lparr>base_url = ''https://fliff.com'', latitude = Fin (50891 / 1250),
          longitude = Fin (- (37003 / 500)), has_page = False\<rparr>"
  unfolding FliffAutomator_init_def getenv_default_def assms option.case
    default_latitude default_longitude then_exc_def sum.case ..

lemma sample_env_lookup:
  "map_of [(''GITHUB_TOKEN'', ''test_github_token''),
           (''GITHUB_REPOSITORY'', ''test/test-repo''),
           (''TELEGRAM_BOT_TOKEN'', ''test_telegram_token''),
           (''TELEGRAM_CHAT_ID'', ''test_chat_id'')] ''GEOLOCATION_LATITUDE'' = None"
  "map_of [(''GITHUB_TOKEN'', ''test_github_token''),
           (''GITHUB_REPOSITORY'', ''test/test-repo''),
           (''TELEGRAM_BOT_TOKEN'', ''test_telegram_token''),
           (''TELEGRAM_CHAT_ID'', ''test_chat_id'')] ''GEOLOCATION_LONGITUDE'' = None"
  "map_of [(''GITHUB_TOKEN'', ''test_github_token''),
           (''GITHUB_REPOSITORY'', ''test/test-repo''),
           (''TELEGRAM_BOT_TOKEN'', ''test_telegram_token''),
           (''TELEGRAM_CHAT_ID'', ''test_chat_id'')] ''FLIFF_USERNAME'' = None"
  "map_of [(''GITHUB_TOKEN'', ''test_github_token''),
           (''GITHUB_REPOSITORY'', ''test/test-repo''),
           (''TELEGRAM_BOT_TOKEN'', ''test_telegram_token''),
           (''TELEGRAM_CHAT_ID'', ''test_chat_id'')] ''FLIFF_PASSWORD'' = None"
  by simp_all

lemma sample_managers:
  "GitHubAPIManager_init
     (map_of [(''GITHUB_TOKEN'', ''test_github_token''),
              (''GITHUB_REPOSITORY'', ''test/test-repo''),
              (''TELEGRAM_BOT_TOKEN'', ''test_telegram_token''),
              (''TELEGRAM_CHAT_ID'', ''test_chat_id'')]) =
   Inr \<lparr>github_token = ''test_github_token'', github_repository = ''test/test-repo'',
        workflow_filename = ''main.yml''\<rparr>"
  "TelegramNotifier_init (\<lambda>token. None)
     (map_of [(''GITHUB_TOKEN'', ''test_github_token''),
              (''GITHUB_REPOSITORY'', ''test/test-repo''),
              (''TELEGRAM_BOT_TOKEN'', ''test_telegram_token''),
              (''TELEGRAM_CHAT_ID'', ''test_chat_id'')]) =
   Inr \<lparr>bot_token = ''test_telegram_token'', chat_id = ''test_chat_id''\<rparr>"
  by (simp_all add: GitHubAPIManager_init_def TelegramNotifier_init_def falsy_def)

lemma perform_all:
  "\<forall>c\<in>set cs. \<exists>b. br c = Inr b \<Longrightarrow> perform br cs made = (None, made @ cs)"
  by (induction cs arbitrary: made) auto

lemma login_attempt_calls:
  assumes "\<forall>c. br c = Inr True" "\<not> has_page self"
  shows "login_attempt env br self =
     (Inr (),
      [Setup_browser, Goto (base_url self @ ''/login''),
       Wait_for_selector login_button_selector,
       Fill ''input[type=text]'' (env ''FLIFF_USERNAME''),
       Fill ''input[type=password]'' (env ''FLIFF_PASSWORD''),
       Click_element login_button_selector,
       Wait_for_selector location_continue_selector,
       Click_element location_continue_selector,
       Wait_for_load_state ''networkidle''])"
proof -
  have p: "perform br cs made = (None, made @ cs)" for cs made
    using assms(1) by (intro perform_all) auto
  show ?thesis
    unfolding login_attempt_def p location_prompt_def
    using assms by simp
qed

lemma GitHubAPIManager_init_missing:
  "env ''GITHUB_TOKEN'' = None \<Longrightarrow>
   GitHubAPIManager_init env = Inl (ValueError ''GITHUB_TOKEN environment variable is required'')"
  "env ''GITHUB_TOKEN'' = Some (c # cs) \<Longrightarrow> env ''GITHUB_REPOSITORY'' = None \<Longrightarrow>
   GitHubAPIManager_init env =
     Inl (ValueError ''GITHUB_REPOSITORY environment variable is required'')"
  by (simp_all add: GitHubAPIManager_init_def falsy_def)

lemma TelegramNotifier_init_missing:
  "env ''TELEGRAM_BOT_TOKEN'' = None \<Longrightarrow>
   TelegramNotifier_init Bot env =
     Inl (ValueError ''TELEGRAM_BOT_TOKEN environment variable is required'')"
  "env ''TELEGRAM_BOT_TOKEN'' = Some (c # cs) \<Longrightarrow> env ''TELEGRAM_CHAT_ID'' = None \<Longrightarrow>
   TelegramNotifier_init Bot env =
     Inl (ValueError ''TELEGRAM_CHAT_ID environment variable is required'')"
  by (simp_all add: TelegramNotifier_init_def falsy_def)

text \<open>
  C6. The construction of the automator does not read the login credentials: it gives the
  same result with and without them. With the control-plane and messaging values set and
  no credentials, the construction of the orchestrator succeeds, and the credentials are
  first read inside \<^verbatim>\<open>_login\<close>, where \<^verbatim>\<open>None\<close> is passed to both \<^verbatim>\<open>fill\<close> calls.
\<close>

theorem construction_without_credentials:
  "FliffAutomator_init (env(''FLIFF_USERNAME'' := None, ''FLIFF_PASSWORD'' := None)) =
     FliffAutomator_init env
   \<and> FliffBotOrchestrator_init (\<lambda>token. None)
       (map_of [(''GITHUB_TOKEN'', ''test_github_token''),
                (''GITHUB_REPOSITORY'', ''test/test-repo''),
                (''TELEGRAM_BOT_TOKEN'', ''test_telegram_token''),
                (''TELEGRAM_CHAT_ID'', ''test_chat_id'')]) =
     Inr \<lparr>goal_balance = Fin 10, min_bet_threshold = Fin (9 / 5),
          min_payout_threshold = Fin 50, max_payout_threshold = Fin 100,
          automator = \<lparr>base_url = ''https://fliff.com'', latitude = Fin (50891 / 1250),
                        longitude = Fin (- (37003 / 500)), has_page = False\<rparr>,
          manager = \<lparr>github_token = ''test_github_token'',
                      github_repository = ''test/test-repo'', workflow_filename = ''main.yml''\<rparr>,
          notifier = \<lparr>bot_token = ''test_telegram_token'', chat_id = ''test_chat_id''\<rparr>\<rparr>
   \<and> login_attempt
       (map_of [(''GITHUB_TOKEN'', ''test_github_token''),
                (''GITHUB_REPOSITORY'', ''test/test-repo''),
                (''TELEGRAM_BOT_TOKEN'', ''test_telegram_token''),
                (''TELEGRAM_CHAT_ID'', ''test_chat_id'')])
       (\<lambda>c. Inr True)
       \<lparr>base_url = ''https://fliff.com'', latitude = Fin (50891 / 1250),
         longitude = Fin (- (37003 / 500)), has_page = False\<rparr> =
     (Inr (),
      [Setup_browser, Goto ''https://fliff.com/login'',
       Wait_for_selector login_button_selector,
       Fill ''input[type=text]'' None, Fill ''input[type=password]'' None,
       Click_element login_button_selector,
       Wait_for_selector location_continue_selector,
       Click_element location_continue_selector,
       Wait_for_load_state ''networkidle''])"
proof (intro conjI)
  let ?env = "map_of [(''GITHUB_TOKEN'', ''test_github_token''),
                (''GITHUB_REPOSITORY'', ''test/test-repo''),
                (''TELEGRAM_BOT_TOKEN'', ''test_telegram_token''),
                (''TELEGRAM_CHAT_ID'', ''test_chat_id'')]"
  let ?a = "\<lparr>base_url = ''https://fliff.com'', latitude = Fin (50891 / 1250),
         longitude = Fin (- (37003 / 500)), has_page = False\<rparr>"
  show "FliffAutomator_init (env(''FLIFF_USERNAME'' := None, ''FLIFF_PASSWORD'' := None)) =
     FliffAutomator_init env"
    by (simp add: FliffAutomator_init_def getenv_default_def)
  have a: "FliffAutomator_init ?env = Inr ?a"
    by (rule FliffAutomator_init_defaults) (rule sample_env_lookup)+
  show "FliffBotOrchestrator_init (\<lambda>token. None) ?env =
     Inr \<lparr>goal_balance = Fin 10, min_bet_threshold = Fin (9 / 5),
          min_payout_threshold = Fin 50, max_payout_threshold = Fin 100,
          automator = ?a,
          manager = \<lparr>github_token = ''test_github_token'',
                      github_repository = ''test/test-repo'', workflow_filename = ''main.yml''\<rparr>,
          notifier = \<lparr>bot_token = ''test_telegram_token'', chat_id = ''test_chat_id''\<rparr>\<rparr>"
    unfolding FliffBotOrchestrator_init_def a sample_managers then_exc_def sum.case ..
  have "login_attempt ?env (\<lambda>c. Inr True) ?a =
     (Inr (),
      [Setup_browser, Goto (base_url ?a @ ''/login''),
       Wait_for_selector login_button_selector,
       Fill ''input[type=text]'' (?env ''FLIFF_USERNAME''),
       Fill ''input[type=password]'' (?env ''FLIFF_PASSWORD''),
       Click_element login_button_selector,
       Wait_for_selector location_continue_selector,
       Click_element location_continue_selector,
       Wait_for_load_state ''networkidle''])"
    by (rule login_attempt_calls) simp_all
  then show "login_attempt ?env (\<lambda>c. Inr True) ?a =
     (Inr (),
      [Setup_browser, Goto ''https://fliff.com/login'',
       Wait_for_selector login_button_selector,
       Fill ''input[type=text]'' None, Fill ''input[type=password]'' None,
       Click_element login_button_selector,
       Wait_for_selector location_continue_selector,
       Click_element location_continue_selector,
       Wait_for_load_state ''networkidle''])"
    unfolding sample_env_lookup by simp
qed

section \<open>Properties of the orchestrator\<close>

lemma no_get_current_payout: "''get_current_payout'' \<notin> set FliffAutomator_attributes"
  by code_simp

lemma automator_methods:
  "''login'' \<in> set FliffAutomator_attributes"
  "''get_balance'' \<in> set FliffAutomator_attributes"
  "''check_open_wagers'' \<in> set FliffAutomator_attributes"
  "''check_and_claim_rewards'' \<in> set FliffAutomator_attributes"
  "''execute_betting_strategy'' \<in> set FliffAutomator_attributes"
  "''take_bet_screenshot'' \<in> set FliffAutomator_attributes"
  "''take_error_screenshot'' \<in> set FliffAutomator_attributes"
  "''close'' \<in> set FliffAutomator_attributes"
  by code_simp+

lemmas run_defs = run_def run_try_def run_except_def run_finally_def betting_phase_def
  bind_step_def return_step_def emit_def automator_call_def get_balance_def unit_result_def
  set_screenshot_path_def send_bet_confirmation_def py_ge_def py_gt_def

text \<open>
  C2. In the scenario where the balance is 5.00 at both reads, no wager blocks and the
  strategy returns true, \<^verbatim>\<open>run\<close> takes the bet-slip screenshot once and reads the balance
  again; the lookup of \<^verbatim>\<open>get_current_payout\<close> on the automator then raises
  \<^verbatim>\<open>AttributeError\<close>, no bet confirmation is sent, and the handler of \<^verbatim>\<open>run\<close> takes an
  error screenshot and sends an error notification instead.
\<close>

theorem run_bet_placed_sends_error:
  "run \<lparr>goal_balance = Fin 10, min_bet_threshold = Fin (9 / 5),
         min_payout_threshold = Fin 50, max_payout_threshold = Fin 100,
         automator = \<lparr>base_url = ''https://fliff.com'', latitude = Fin (50891 / 1250),
                       longitude = Fin (- (37003 / 500)), has_page = False\<rparr>,
         manager = \<lparr>github_token = ''test_github_token'', github_repository = ''test/test-repo'',
                     workflow_filename = ''main.yml''\<rparr>,
         notifier = \<lparr>bot_token = ''test_telegram_token'', chat_id = ''test_chat_id''\<rparr>\<rparr>
       \<lparr>login_result = None, balance_result = (\<lambda>n. Inr (Fin 5)),
         open_wagers_result = Inr False, claim_rewards_result = None,
         strategy_result = Inr True, slip_payout_result = Inr (Fin 75),
         bet_screenshot_result = ''test_screenshot.png'',
         error_screenshot_result = ''error.png'', path_exists = (\<lambda>p. True)\<rparr>
   = (Inr (),
      \<lparr>events =
         [Send_status_update Bot_started, Login, Get_balance, Check_open_wagers,
          Execute_betting_strategy (Fin 50) (Fin 100), Take_bet_screenshot, Get_balance,
          Take_error_screenshot,
          Send_error_notification
            (AttributeError ''FliffAutomator object has no attribute get_current_payout'')
            ''error.png'',
          Close, Remove_file ''error.png''],
       balance_calls = 2, screenshot_path = Some ''error.png''\<rparr>)"
  by (simp add: run_defs no_get_current_payout automator_methods)

text \<open>
  The keyword \<^verbatim>\<open>potential_potential_payout\<close> of the call is not a parameter of
  \<^verbatim>\<open>send_bet_confirmation\<close>: the call itself raises \<^verbatim>\<open>TypeError\<close>.
\<close>

lemma send_bet_confirmation_keyword:
  "send_bet_confirmation
     [(''wager_amount'', Float b), (''potential_potential_payout'', Float p),
      (''screenshot_path'', Str path)] s =
   (Inl (TypeError ''got an unexpected keyword argument potential_potential_payout''), s)"
  by (simp add: send_bet_confirmation_def bind_keywords_def send_bet_confirmation_parameters_def)

end
